theory Spec2Isabelle
  imports Complex_Main "HOL-Library.Word"
begin

section \<open>Outcomes and sequencing\<close>

text \<open>
  \<^verbatim>\<open>Lua.hpp\<close> reports its own failures by throwing \<^verbatim>\<open>std::logic_error\<close> (the checks
  \<^verbatim>\<open>check_state\<close>, \<^verbatim>\<open>check_state_consistancy\<close>, \<^verbatim>\<open>check_is_function\<close>, \<^verbatim>\<open>check_is_table\<close>,
  \<^verbatim>\<open>table_index::check_valid\<close>) and \<^verbatim>\<open>std::runtime_error\<close> (a failed protected call).
  Two further outcomes are not exceptions of the wrapper and are kept apart from them:
  an error raised by the interpreter outside a protected call (the interpreter calls its
  panic function and the host exits), and behaviour that C++ or the interpreter's API
  leaves undefined (a null or dangling pointer, a read outside an allocation, a stack
  index that names no slot).

  An operation takes the state and returns the outcome together with the state it leaves:
  what was done before a throw stays done.
\<close>

datatype error =
    logic_error string
  | runtime_error string
  | lua_panic string
  | undefined_behaviour string

type_synonym ('s, 'a) op = "'s \<Rightarrow> (error + 'a) \<times> 's"

definition ret :: "'a \<Rightarrow> ('s, 'a) op" where
  "ret x = (\<lambda>st. (Inr x, st))"

definition throw :: "error \<Rightarrow> ('s, 'a) op" where
  "throw e = (\<lambda>st. (Inl e, st))"

definition bind :: "('s, 'a) op \<Rightarrow> ('a \<Rightarrow> ('s, 'b) op) \<Rightarrow> ('s, 'b) op" where
  "bind m f = (\<lambda>st. case m st of (Inl e, st') \<Rightarrow> (Inl e, st') | (Inr x, st') \<Rightarrow> f x st')"

section \<open>The interpreter behind \<^verbatim>\<open>lua_State*\<close>\<close>

text \<open>
  The interpreter is not part of \<^verbatim>\<open>Lua.hpp\<close>; the wrapper drives it through the C API of
  Lua 5.1 / LuaJIT (\<^verbatim>\<open>LUA_WRAPPER_IMPLEMENTATION_LUAJIT\<close> is defined). The model follows
  the reference manual for the API functions the wrapper calls, with these limits:
  \<^item> numbers are the reals they denote (a \<^verbatim>\<open>lua_Number\<close> is a finite double; NaN and the
    infinities are left out), and a \<^verbatim>\<open>lua_Integer\<close> is an integer of 64 bits, written as
    an \<open>int\<close> (no arithmetic is done on it);
  \<^item> metatables are left out, so indexing a value that is not a table raises;
  \<^item> the stack is unbounded (\<^verbatim>\<open>lua_checkstack\<close> is never needed);
  \<^item> what a function does when called is given by \<open>call_result\<close>: from the arguments to an
    error value or to the list of results; effects of the callee on the interpreter are
    left out;
  \<^item> the registry hands out the lowest free positive reference, removes an entry on
    \<^verbatim>\<open>luaL_unref\<close>, and reads a free slot as nil, as the manual describes it. (The
    implementation keeps its list of free references in the freed slots, so that a
    freed slot reads as nil or as a number; code that reads only the references it
    holds does not see the difference.)
\<close>

datatype lua_value =
    LNil
  | LBoolean bool
  | LNumber real
  | LString string
  | LFunction nat
  | LCFunction nat
  | LUserdata nat
  | LLightuserdata nat
  | LThread nat
  | LTable nat

record lua_State =
  stack :: "lua_value list"
  registry :: "lua_value option list"
  globals :: "string \<Rightarrow> lua_value"
  tables :: "(lua_value \<Rightarrow> lua_value) list"
  call_result :: "lua_value \<Rightarrow> lua_value list \<Rightarrow> lua_value + lua_value list"
  str2d :: "string \<Rightarrow> real option"
  fmt_number :: "real \<Rightarrow> string"

text \<open>
  \<open>stack\<close> lists the slots from the top down: its head is index \<open>-1\<close>, its last element is
  index \<open>1\<close>. \<open>registry\<close> holds reference \<open>r \<ge> 1\<close> at position \<open>r - 1\<close>. \<open>tables\<close> holds
  the table \<open>LTable a\<close> at position \<open>a\<close>; a table maps a key to its value, \<open>LNil\<close> for an
  absent key. \<open>str2d\<close> is the interpreter's conversion of a string to a number and
  \<open>fmt_number\<close> its conversion of a number to a string.
\<close>

definition LUA_REFNIL :: int where
  "LUA_REFNIL = -1"

definition LUA_ERRRUN :: int where
  "LUA_ERRRUN = 2"

definition slot :: "lua_State \<Rightarrow> int \<Rightarrow> nat option" where
  "slot st idx =
     (if idx < 0 \<and> nat (- idx) \<le> length (stack st) then Some (nat (- idx) - 1)
      else if 0 < idx \<and> nat idx \<le> length (stack st) then Some (length (stack st) - nat idx)
      else None)"

definition index2adr :: "lua_State \<Rightarrow> int \<Rightarrow> lua_value option" where
  "index2adr st idx = (case slot st idx of None \<Rightarrow> None | Some k \<Rightarrow> Some (stack st ! k))"

definition lua_typename :: "lua_value \<Rightarrow> string" where
  "lua_typename v =
     (case v of
        LNil \<Rightarrow> ''nil''
      | LBoolean b \<Rightarrow> ''boolean''
      | LNumber n \<Rightarrow> ''number''
      | LString x \<Rightarrow> ''string''
      | LFunction f \<Rightarrow> ''function''
      | LCFunction f \<Rightarrow> ''function''
      | LUserdata p \<Rightarrow> ''userdata''
      | LLightuserdata p \<Rightarrow> ''userdata''
      | LThread c \<Rightarrow> ''thread''
      | LTable a \<Rightarrow> ''table'')"

subsection \<open>Type tests and conversions\<close>

definition lua_isnil :: "lua_State \<Rightarrow> int \<Rightarrow> bool" where
  "lua_isnil st idx = (case index2adr st idx of Some LNil \<Rightarrow> True | _ \<Rightarrow> False)"

definition lua_isboolean :: "lua_State \<Rightarrow> int \<Rightarrow> bool" where
  "lua_isboolean st idx = (case index2adr st idx of Some (LBoolean b) \<Rightarrow> True | _ \<Rightarrow> False)"

definition lua_isnumber :: "lua_State \<Rightarrow> int \<Rightarrow> bool" where
  "lua_isnumber st idx =
     (case index2adr st idx of
        Some (LNumber n) \<Rightarrow> True
      | Some (LString x) \<Rightarrow> str2d st x \<noteq> None
      | _ \<Rightarrow> False)"

definition lua_isstring :: "lua_State \<Rightarrow> int \<Rightarrow> bool" where
  "lua_isstring st idx =
     (case index2adr st idx of
        Some (LString x) \<Rightarrow> True
      | Some (LNumber n) \<Rightarrow> True
      | _ \<Rightarrow> False)"

definition lua_isfunction :: "lua_State \<Rightarrow> int \<Rightarrow> bool" where
  "lua_isfunction st idx =
     (case index2adr st idx of
        Some (LFunction f) \<Rightarrow> True
      | Some (LCFunction f) \<Rightarrow> True
      | _ \<Rightarrow> False)"

definition lua_iscfunction :: "lua_State \<Rightarrow> int \<Rightarrow> bool" where
  "lua_iscfunction st idx = (case index2adr st idx of Some (LCFunction f) \<Rightarrow> True | _ \<Rightarrow> False)"

definition lua_isuserdata :: "lua_State \<Rightarrow> int \<Rightarrow> bool" where
  "lua_isuserdata st idx =
     (case index2adr st idx of
        Some (LUserdata p) \<Rightarrow> True
      | Some (LLightuserdata p) \<Rightarrow> True
      | _ \<Rightarrow> False)"

definition lua_islightuserdata :: "lua_State \<Rightarrow> int \<Rightarrow> bool" where
  "lua_islightuserdata st idx =
     (case index2adr st idx of Some (LLightuserdata p) \<Rightarrow> True | _ \<Rightarrow> False)"

definition lua_isthread :: "lua_State \<Rightarrow> int \<Rightarrow> bool" where
  "lua_isthread st idx = (case index2adr st idx of Some (LThread c) \<Rightarrow> True | _ \<Rightarrow> False)"

definition lua_istable :: "lua_State \<Rightarrow> int \<Rightarrow> bool" where
  "lua_istable st idx = (case index2adr st idx of Some (LTable a) \<Rightarrow> True | _ \<Rightarrow> False)"

definition lua_toboolean :: "lua_State \<Rightarrow> int \<Rightarrow> bool" where
  "lua_toboolean st idx =
     (case index2adr st idx of
        None \<Rightarrow> False
      | Some LNil \<Rightarrow> False
      | Some (LBoolean b) \<Rightarrow> b
      | _ \<Rightarrow> True)"

definition lua_tonumber :: "lua_State \<Rightarrow> int \<Rightarrow> real" where
  "lua_tonumber st idx =
     (case index2adr st idx of
        Some (LNumber n) \<Rightarrow> n
      | Some (LString x) \<Rightarrow> (case str2d st x of Some n \<Rightarrow> n | None \<Rightarrow> 0)
      | _ \<Rightarrow> 0)"

text \<open>
  On LuaJIT \<^verbatim>\<open>lua_tointeger\<close> is the C cast of the number to \<^verbatim>\<open>lua_Integer\<close>: it drops the
  fraction. A number whose integer part does not fit 64 bits has no defined cast; the
  conversion instruction of x86-64 then gives the least integer, \<open>-2^63\<close>. Whatever it
  gives there, it is a 64-bit integer and differs from the number.
\<close>

definition lua_tointeger :: "lua_State \<Rightarrow> int \<Rightarrow> int" where
  "lua_tointeger st idx =
     (let n = lua_tonumber st idx;
          i = (if 0 \<le> n then \<lfloor>n\<rfloor> else \<lceil>n\<rceil>)
      in if - (2 ^ 63) \<le> i \<and> i < 2 ^ 63 then i else - (2 ^ 63))"

definition lua_tocfunction :: "lua_State \<Rightarrow> int \<Rightarrow> nat" where
  "lua_tocfunction st idx = (case index2adr st idx of Some (LCFunction f) \<Rightarrow> f | _ \<Rightarrow> 0)"

definition lua_touserdata :: "lua_State \<Rightarrow> int \<Rightarrow> nat" where
  "lua_touserdata st idx =
     (case index2adr st idx of
        Some (LUserdata p) \<Rightarrow> p
      | Some (LLightuserdata p) \<Rightarrow> p
      | _ \<Rightarrow> 0)"

text \<open>
  \<^verbatim>\<open>lua_tostring\<close> returns \<^verbatim>\<open>NULL\<close> (here \<open>None\<close>) unless the slot holds a string or a
  number; a number is turned into a string in its slot.
\<close>

definition lua_tostring :: "int \<Rightarrow> (lua_State, string option) op" where
  "lua_tostring idx st =
     (case slot st idx of
        None \<Rightarrow> (Inr None, st)
      | Some k \<Rightarrow>
          (case stack st ! k of
             LString x \<Rightarrow> (Inr (Some x), st)
           | LNumber n \<Rightarrow>
               (Inr (Some (fmt_number st n)),
                st\<lparr>stack := (stack st)[k := LString (fmt_number st n)]\<rparr>)
           | _ \<Rightarrow> (Inr None, st)))"

subsection \<open>Stack operations\<close>

definition lua_gettop :: "(lua_State, int) op" where
  "lua_gettop st = (Inr (int (length (stack st))), st)"

definition push :: "lua_value \<Rightarrow> (lua_State, unit) op" where
  "push v st = (Inr (), st\<lparr>stack := v # stack st\<rparr>)"

definition lua_pop :: "int \<Rightarrow> (lua_State, unit) op" where
  "lua_pop n st =
     (if 0 \<le> n \<and> nat n \<le> length (stack st)
      then (Inr (), st\<lparr>stack := drop (nat n) (stack st)\<rparr>)
      else (Inl (undefined_behaviour ''lua_pop: not enough slots''), st))"

definition lua_pushvalue :: "int \<Rightarrow> (lua_State, unit) op" where
  "lua_pushvalue idx st =
     (case index2adr st idx of
        None \<Rightarrow> (Inl (undefined_behaviour ''lua_pushvalue: invalid index''), st)
      | Some v \<Rightarrow> push v st)"

definition lua_pushnil :: "(lua_State, unit) op" where
  "lua_pushnil = push LNil"

definition lua_pushboolean :: "bool \<Rightarrow> (lua_State, unit) op" where
  "lua_pushboolean b = push (LBoolean b)"

definition lua_pushnumber :: "real \<Rightarrow> (lua_State, unit) op" where
  "lua_pushnumber n = push (LNumber n)"

definition lua_pushinteger :: "int \<Rightarrow> (lua_State, unit) op" where
  "lua_pushinteger i = push (LNumber (of_int i))"

definition lua_pushstring :: "string \<Rightarrow> (lua_State, unit) op" where
  "lua_pushstring x = push (LString x)"

definition lua_pushcfunction :: "nat \<Rightarrow> (lua_State, unit) op" where
  "lua_pushcfunction f = push (LCFunction f)"

definition lua_pushlightuserdata :: "nat \<Rightarrow> (lua_State, unit) op" where
  "lua_pushlightuserdata p = push (LLightuserdata p)"

subsection \<open>Tables and globals\<close>

definition lua_createtable :: "int \<Rightarrow> int \<Rightarrow> (lua_State, unit) op" where
  "lua_createtable narr nrec st =
     (Inr (), st\<lparr>stack := LTable (length (tables st)) # stack st,
                 tables := tables st @ [\<lambda>k. LNil]\<rparr>)"

text \<open>
  \<^verbatim>\<open>lua_settable(L, idx)\<close> does \<open>t[k] = v\<close> for the table \<open>t\<close> at \<open>idx\<close>, the value \<open>v\<close> on
  top and the key \<open>k\<close> below it, and pops both. \<^verbatim>\<open>lua_gettable(L, idx)\<close> replaces the key
  on top by \<open>t[k]\<close>. Both raise in the interpreter when \<open>t\<close> is not a table.
\<close>

definition lua_settable :: "int \<Rightarrow> (lua_State, unit) op" where
  "lua_settable idx st =
     (case (index2adr st idx, stack st) of
        (Some (LTable a), v # k # rest) \<Rightarrow>
          (if length (tables st) \<le> a
           then (Inl (undefined_behaviour ''lua_settable: dangling table''), st)
           else if k = LNil then (Inl (lua_panic ''table index is nil''), st)
           else (Inr (), st\<lparr>stack := rest, tables := (tables st)[a := (tables st ! a)(k := v)]\<rparr>))
      | (Some x, v # k # rest) \<Rightarrow>
          (Inl (lua_panic (''attempt to index a '' @ lua_typename x @ '' value'')), st)
      | _ \<Rightarrow> (Inl (undefined_behaviour ''lua_settable: invalid index''), st))"

definition lua_gettable :: "int \<Rightarrow> (lua_State, unit) op" where
  "lua_gettable idx st =
     (case (index2adr st idx, stack st) of
        (Some (LTable a), k # rest) \<Rightarrow>
          (if length (tables st) \<le> a
           then (Inl (undefined_behaviour ''lua_gettable: dangling table''), st)
           else (Inr (), st\<lparr>stack := (tables st ! a) k # rest\<rparr>))
      | (Some x, k # rest) \<Rightarrow>
          (Inl (lua_panic (''attempt to index a '' @ lua_typename x @ '' value'')), st)
      | _ \<Rightarrow> (Inl (undefined_behaviour ''lua_gettable: invalid index''), st))"

definition lua_getglobal :: "string \<Rightarrow> (lua_State, unit) op" where
  "lua_getglobal n st = push (globals st n) st"

definition lua_setglobal :: "string \<Rightarrow> (lua_State, unit) op" where
  "lua_setglobal n st =
     (case stack st of
        [] \<Rightarrow> (Inl (undefined_behaviour ''lua_setglobal: empty stack''), st)
      | v # rest \<Rightarrow> (Inr (), st\<lparr>stack := rest, globals := (globals st)(n := v)\<rparr>))"

subsection \<open>The registry (\<^verbatim>\<open>LUA_REGISTRYINDEX\<close>)\<close>

fun first_free :: "lua_value option list \<Rightarrow> nat" where
  "first_free [] = 0"
| "first_free (None # xs) = 0"
| "first_free (Some v # xs) = Suc (first_free xs)"

definition lua_rawgeti :: "int \<Rightarrow> (lua_State, unit) op" where
  "lua_rawgeti n st =
     (if 1 \<le> n \<and> nat n \<le> length (registry st)
      then (case registry st ! (nat n - 1) of None \<Rightarrow> push LNil st | Some v \<Rightarrow> push v st)
      else push LNil st)"

text \<open>
  \<^verbatim>\<open>luaL_ref\<close> pops the top value; for nil it returns \<^verbatim>\<open>LUA_REFNIL\<close> and stores nothing.
\<close>

definition luaL_ref :: "(lua_State, int) op" where
  "luaL_ref st =
     (case stack st of
        [] \<Rightarrow> (Inl (undefined_behaviour ''luaL_ref: empty stack''), st)
      | LNil # rest \<Rightarrow> (Inr LUA_REFNIL, st\<lparr>stack := rest\<rparr>)
      | v # rest \<Rightarrow>
          (let i = first_free (registry st)
           in (Inr (int i + 1),
               st\<lparr>stack := rest,
                  registry := (if i < length (registry st) then (registry st)[i := Some v]
                               else registry st @ [Some v])\<rparr>)))"

definition luaL_unref :: "int \<Rightarrow> (lua_State, unit) op" where
  "luaL_unref r st =
     (if 1 \<le> r \<and> nat r \<le> length (registry st)
      then (Inr (), st\<lparr>registry := (registry st)[nat r - 1 := None]\<rparr>)
      else (Inr (), st))"

subsection \<open>Protected calls\<close>

text \<open>
  \<^verbatim>\<open>lua_pcall(L, nargs, LUA_MULTRET, 0)\<close> removes the callee and its \<open>nargs\<close> arguments and
  pushes either all results, first result first, or the error value.
\<close>

definition callable :: "lua_value \<Rightarrow> bool" where
  "callable v = (case v of LFunction f \<Rightarrow> True | LCFunction f \<Rightarrow> True | _ \<Rightarrow> False)"

definition lua_pcall :: "int \<Rightarrow> (lua_State, int) op" where
  "lua_pcall nargs st =
     (if nargs < 0 \<or> length (stack st) < nat nargs + 1
      then (Inl (undefined_behaviour ''lua_pcall: callee or arguments missing''), st)
      else
        (let args = rev (take (nat nargs) (stack st));
             f = stack st ! nat nargs;
             rest = drop (nat nargs + 1) (stack st)
         in if \<not> callable f
            then (Inr LUA_ERRRUN,
                  st\<lparr>stack := LString (''attempt to call a '' @ lua_typename f @ '' value'') # rest\<rparr>)
            else (case call_result st f args of
                    Inl e \<Rightarrow> (Inr LUA_ERRRUN, st\<lparr>stack := e # rest\<rparr>)
                  | Inr rs \<Rightarrow> (Inr 0, st\<lparr>stack := rev rs @ rest\<rparr>))))"

section \<open>The host's memory\<close>

text \<open>
  A \<^verbatim>\<open>state\<close> object has the one member \<^verbatim>\<open>lua_State *L\<close>; \<open>None\<close> is \<^verbatim>\<open>nullptr\<close>. Handles
  keep a \<^verbatim>\<open>state*\<close>, so \<^verbatim>\<open>state\<close> objects live in a store, by address. Interpreters live
  in a second store, by their \<^verbatim>\<open>lua_State*\<close>; a closed interpreter has no entry.

  A block of \<open>heap\<close> is an allocation of \<^verbatim>\<open>std::malloc\<close>, named by its position; a freed
  block is \<open>None\<close>. \<open>refc\<close> is the 4-byte count in front of the characters, present only
  when the block was laid out with it; a \<^verbatim>\<open>char*\<close> of the wrapper points at the characters.
\<close>

type_synonym state = "nat option"

datatype block = Block (refc: "32 word option") (chars: string)

record world =
  states :: "nat \<Rightarrow> state option"
  interps :: "nat \<Rightarrow> lua_State option"
  heap :: "block option list"

definition api :: "nat option \<Rightarrow> (lua_State, 'a) op \<Rightarrow> (world, 'a) op" where
  "api Lp m w =
     (case Lp of
        None \<Rightarrow> (Inl (undefined_behaviour ''null lua_State''), w)
      | Some p \<Rightarrow>
          (case interps w p of
             None \<Rightarrow> (Inl (undefined_behaviour ''closed lua_State''), w)
           | Some st \<Rightarrow> (case m st of (r, st') \<Rightarrow> (r, w\<lparr>interps := (interps w)(p \<mapsto> st')\<rparr>))))"

definition snapshot :: "(lua_State, lua_State) op" where
  "snapshot st = (Inr st, st)"

definition deref :: "nat option \<Rightarrow> (world, state) op" where
  "deref sp w =
     (case sp of
        None \<Rightarrow> (Inl (undefined_behaviour ''null state''), w)
      | Some a \<Rightarrow>
          (case states w a of
             None \<Rightarrow> (Inl (undefined_behaviour ''dangling state''), w)
           | Some x \<Rightarrow> (Inr x, w)))"

text \<open>
  \<open>scope_exit m d\<close> runs \<open>m\<close>, then \<open>d\<close> whether \<open>m\<close> threw or not, as a destructor runs at
  the end of a scope and during unwinding.
\<close>

definition scope_exit :: "('s, 'a) op \<Rightarrow> ('s, unit) op \<Rightarrow> ('s, 'a) op" where
  "scope_exit m d =
     (\<lambda>st. case m st of
              (r, st1) \<Rightarrow> (case d st1 of (Inl e, st2) \<Rightarrow> (Inl e, st2) | (Inr u, st2) \<Rightarrow> (r, st2)))"

section \<open>\<^verbatim>\<open>class state\<close>: move and destruction\<close>

definition state_move :: "nat \<Rightarrow> nat \<Rightarrow> (world, unit) op" where
  "state_move dst src =
     bind (deref (Some src)) (\<lambda>x w.
       (Inr (), w\<lparr>states := (states w)(dst \<mapsto> x, src \<mapsto> None)\<rparr>))"

definition lua_close :: "nat \<Rightarrow> (world, unit) op" where
  "lua_close p w =
     (case interps w p of
        None \<Rightarrow> (Inl (undefined_behaviour ''closed lua_State''), w)
      | Some st \<Rightarrow> (Inr (), w\<lparr>interps := (interps w)(p := None)\<rparr>))"

definition state_dtor :: "nat \<Rightarrow> (world, unit) op" where
  "state_dtor a =
     bind (deref (Some a)) (\<lambda>x.
     bind (case x of None \<Rightarrow> ret () | Some p \<Rightarrow> lua_close p) (\<lambda>u w.
       (Inr (), w\<lparr>states := (states w)(a := None)\<rparr>)))"

section \<open>Stateless strings\<close>

definition malloc :: "block \<Rightarrow> (world, nat) op" where
  "malloc b w = (Inr (length (heap w)), w\<lparr>heap := heap w @ [Some b]\<rparr>)"

definition free :: "nat \<Rightarrow> (world, unit) op" where
  "free p w =
     (if p < length (heap w) \<and> heap w ! p \<noteq> None
      then (Inr (), w\<lparr>heap := (heap w)[p := None]\<rparr>)
      else (Inl (undefined_behaviour ''free: not a live allocation''), w))"

text \<open>
  \<^verbatim>\<open>get_string_refc(s)\<close> is the address \<^verbatim>\<open>s - sizeof(uint32_t)\<close>. It lies inside the
  allocation exactly when the block was laid out with the count in front.
\<close>

definition get_string_refc :: "nat \<Rightarrow> (world, 32 word) op" where
  "get_string_refc p w =
     (if length (heap w) \<le> p
      then (Inl (undefined_behaviour ''wild pointer''), w)
      else (case heap w ! p of
              None \<Rightarrow> (Inl (undefined_behaviour ''use after free''), w)
            | Some (Block None x) \<Rightarrow>
                (Inl (undefined_behaviour ''access before the start of the allocation''), w)
            | Some (Block (Some c) x) \<Rightarrow> (Inr c, w)))"

definition set_string_refc :: "nat \<Rightarrow> 32 word \<Rightarrow> (world, unit) op" where
  "set_string_refc p c w =
     (case heap w ! p of
        Some (Block h x) \<Rightarrow> (Inr (), w\<lparr>heap := (heap w)[p := Some (Block (Some c) x)]\<rparr>)
      | None \<Rightarrow> (Inl (undefined_behaviour ''use after free''), w))"

definition create_string :: "string \<Rightarrow> (world, nat) op" where
  "create_string x = malloc (Block (Some 1) x)"

definition copy_string :: "nat \<Rightarrow> (world, nat) op" where
  "copy_string p =
     bind (get_string_refc p) (\<lambda>c.
     bind (set_string_refc p (c + 1)) (\<lambda>u.
     ret p))"

definition release_string :: "nat \<Rightarrow> (world, unit) op" where
  "release_string p =
     bind (get_string_refc p) (\<lambda>c.
     bind (set_string_refc p (c - 1)) (\<lambda>u.
     if c - 1 = 0 then free p else ret ()))"

definition live_buffers :: "world \<Rightarrow> nat" where
  "live_buffers w = length (filter (\<lambda>b. b \<noteq> None) (heap w))"

section \<open>Handles: \<^verbatim>\<open>class local\<close> and \<^verbatim>\<open>class table_index\<close>\<close>

text \<open>
  \<open>type\<close> is \<^verbatim>\<open>local::type\<close> with \<^verbatim>\<open>LUA_WRAPPER_STATELESS_STRINGS\<close> defined, and
  \<open>value_union\<close> the anonymous union \<^verbatim>\<open>value\<close>, one constructor for each member. Reading
  a member other than the one stored is undefined. Pointers to C functions and \<^verbatim>\<open>void*\<close>
  are addresses, \<open>0\<close> for \<^verbatim>\<open>nullptr\<close>. The member \<^verbatim>\<open>value\<close> of \<^verbatim>\<open>local\<close> is the field
  \<open>val\<close>, and the member \<^verbatim>\<open>s\<close> of \<^verbatim>\<open>table_index\<close> is the field \<open>s_ti\<close>.
\<close>

datatype type =
    type_nil
  | type_boolean
  | type_number
  | type_integer
  | type_string
  | type_stateless_string
  | type_function
  | type_cfunction
  | type_userdata
  | type_lightuserdata
  | type_thread
  | type_table

datatype value_union =
    value_boolean bool
  | value_number real
  | value_integer int
  | value_cfunction nat
  | value_lightuserdata nat
  | value_ref int
  | value_string nat

record table_index =
  s_ti :: "nat option"
  tblRef :: int
  idxRef :: int

record local =
  s :: "nat option"
  L :: "nat option"
  t :: type
  val :: value_union
  tindex :: table_index
  cargs :: "32 word"

definition inactive :: error where
  "inactive = undefined_behaviour ''read of an inactive union member''"

definition lift :: "error + 'a \<Rightarrow> ('s, 'a) op" where
  "lift r = (\<lambda>st. (r, st))"

definition get_boolean :: "value_union \<Rightarrow> error + bool" where
  "get_boolean v = (case v of value_boolean b \<Rightarrow> Inr b | _ \<Rightarrow> Inl inactive)"

definition get_number :: "value_union \<Rightarrow> error + real" where
  "get_number v = (case v of value_number n \<Rightarrow> Inr n | _ \<Rightarrow> Inl inactive)"

definition get_integer :: "value_union \<Rightarrow> error + int" where
  "get_integer v = (case v of value_integer i \<Rightarrow> Inr i | _ \<Rightarrow> Inl inactive)"

definition get_cfunction :: "value_union \<Rightarrow> error + nat" where
  "get_cfunction v = (case v of value_cfunction f \<Rightarrow> Inr f | _ \<Rightarrow> Inl inactive)"

definition get_lightuserdata :: "value_union \<Rightarrow> error + nat" where
  "get_lightuserdata v = (case v of value_lightuserdata p \<Rightarrow> Inr p | _ \<Rightarrow> Inl inactive)"

definition get_ref :: "value_union \<Rightarrow> error + int" where
  "get_ref v = (case v of value_ref r \<Rightarrow> Inr r | _ \<Rightarrow> Inl inactive)"

definition get_string :: "value_union \<Rightarrow> error + nat" where
  "get_string v = (case v of value_string p \<Rightarrow> Inr p | _ \<Rightarrow> Inl inactive)"

subsection \<open>Tag tests and checks\<close>

definition is_nil :: "local \<Rightarrow> bool" where
  "is_nil this = (t this = type_nil)"

definition is_boolean :: "local \<Rightarrow> bool" where
  "is_boolean this = (t this = type_boolean)"

definition is_number :: "local \<Rightarrow> bool" where
  "is_number this = (t this = type_number \<or> t this = type_integer)"

definition is_integer :: "local \<Rightarrow> bool" where
  "is_integer this = (t this = type_integer)"

definition is_string :: "local \<Rightarrow> bool" where
  "is_string this = (t this = type_string)"

definition is_function :: "local \<Rightarrow> bool" where
  "is_function this = (t this = type_function \<or> t this = type_cfunction)"

definition is_cfunction :: "local \<Rightarrow> bool" where
  "is_cfunction this = (t this = type_cfunction)"

definition is_userdata :: "local \<Rightarrow> bool" where
  "is_userdata this = (t this = type_userdata \<or> t this = type_lightuserdata)"

definition is_lightuserdata :: "local \<Rightarrow> bool" where
  "is_lightuserdata this = (t this = type_lightuserdata)"

definition is_thread :: "local \<Rightarrow> bool" where
  "is_thread this = (t this = type_thread)"

definition is_table :: "local \<Rightarrow> bool" where
  "is_table this = (t this = type_table)"

definition is_ref_type :: "local \<Rightarrow> bool" where
  "is_ref_type this =
     (t this = type_string \<or> t this = type_function \<or> t this = type_userdata
      \<or> t this = type_thread \<or> t this = type_table)"

definition check_state :: "local \<Rightarrow> ('s, unit) op" where
  "check_state this =
     (if s this = None
      then throw (logic_error
             ''Cannot operate on a reference-type local that is not attached to a state'')
      else ret ())"

definition check_state_consistancy :: "local \<Rightarrow> nat option \<Rightarrow> ('s, unit) op" where
  "check_state_consistancy this Lp =
     (if L this \<noteq> None \<and> L this \<noteq> Lp
      then throw (logic_error ''Inconsistant state between locals'')
      else ret ())"

definition check_is_function :: "local \<Rightarrow> ('s, unit) op" where
  "check_is_function this =
     (if t this \<noteq> type_function
      then throw (logic_error ''Cannot call a local that is not a function'')
      else ret ())"

definition check_is_table :: "local \<Rightarrow> ('s, unit) op" where
  "check_is_table this =
     (if t this \<noteq> type_table
      then throw (logic_error ''Cannot index a local that is not a table'')
      else ret ())"

subsection \<open>Moving values between a handle and the stack\<close>

definition push_ref_value :: "local \<Rightarrow> (world, unit) op" where
  "push_ref_value this =
     bind (lift (get_ref (val this))) (\<lambda>r. api (L this) (lua_rawgeti r))"

text \<open>
  \<^verbatim>\<open>push_value(lua_State *L = nullptr)\<close>: the reference kinds go through
  \<^verbatim>\<open>push_ref_value\<close>, which uses the member \<^verbatim>\<open>this->L\<close>, not the parameter.
\<close>

definition push_value :: "local \<Rightarrow> nat option \<Rightarrow> (world, unit) op" where
  "push_value this Lp0 =
     (let Lp = (if Lp0 = None then L this else Lp0)
      in case t this of
           type_nil \<Rightarrow> api Lp lua_pushnil
         | type_boolean \<Rightarrow>
             bind (lift (get_boolean (val this))) (\<lambda>b. api Lp (lua_pushboolean b))
         | type_number \<Rightarrow>
             bind (lift (get_number (val this))) (\<lambda>n. api Lp (lua_pushnumber n))
         | type_integer \<Rightarrow>
             bind (lift (get_integer (val this))) (\<lambda>i. api Lp (lua_pushinteger i))
         | type_string \<Rightarrow> push_ref_value this
         | type_stateless_string \<Rightarrow>
             bind (lift (get_string (val this))) (\<lambda>p w.
               if p < length (heap w)
               then (case heap w ! p of
                       Some b \<Rightarrow> api Lp (lua_pushstring (chars b)) w
                     | None \<Rightarrow> (Inl (undefined_behaviour ''use after free''), w))
               else (Inl (undefined_behaviour ''wild pointer''), w))
         | type_function \<Rightarrow> push_ref_value this
         | type_cfunction \<Rightarrow>
             bind (lift (get_cfunction (val this))) (\<lambda>f. api Lp (lua_pushcfunction f))
         | type_userdata \<Rightarrow> push_ref_value this
         | type_lightuserdata \<Rightarrow>
             bind (lift (get_lightuserdata (val this))) (\<lambda>p. api Lp (lua_pushlightuserdata p))
         | type_thread \<Rightarrow> push_ref_value this
         | type_table \<Rightarrow> push_ref_value this)"

definition load_ref_value_no_type :: "local \<Rightarrow> int \<Rightarrow> (world, local) op" where
  "load_ref_value_no_type this idx =
     bind (api (L this) (lua_pushvalue idx)) (\<lambda>u.
     bind (api (L this) luaL_ref) (\<lambda>r.
     ret (this\<lparr>val := value_ref r\<rparr>)))"

definition load_ref_value :: "local \<Rightarrow> int \<Rightarrow> (world, local) op" where
  "load_ref_value this idx =
     bind (api (L this) snapshot) (\<lambda>st.
     load_ref_value_no_type
       (if lua_isstring st idx then this\<lparr>t := type_string\<rparr>
        else if lua_isfunction st idx then this\<lparr>t := type_function\<rparr>
        else if lua_isuserdata st idx then this\<lparr>t := type_userdata\<rparr>
        else if lua_isthread st idx then this\<lparr>t := type_thread\<rparr>
        else if lua_istable st idx then this\<lparr>t := type_table\<rparr>
        else this)
       idx)"

text \<open>The branch for \<^verbatim>\<open>LUA_WRAPPER_IMPLEMENTATION_LUAJIT\<close>.\<close>

definition load_value :: "local \<Rightarrow> int \<Rightarrow> (world, local) op" where
  "load_value this idx =
     bind (api (L this) snapshot) (\<lambda>st.
     if lua_isnil st idx then ret (this\<lparr>t := type_nil\<rparr>)
     else if lua_isboolean st idx
       then ret (this\<lparr>t := type_boolean, val := value_boolean (lua_toboolean st idx)\<rparr>)
     else if lua_isnumber st idx
       then (if of_int (lua_tointeger st idx) = lua_tonumber st idx
             then ret (this\<lparr>t := type_integer, val := value_integer (lua_tointeger st idx)\<rparr>)
             else ret (this\<lparr>t := type_number, val := value_number (lua_tonumber st idx)\<rparr>))
     else if lua_iscfunction st idx
       then ret (this\<lparr>t := type_cfunction, val := value_cfunction (lua_tocfunction st idx)\<rparr>)
     else if lua_islightuserdata st idx
       then ret (this\<lparr>t := type_lightuserdata,
                      val := value_lightuserdata (lua_touserdata st idx)\<rparr>)
     else load_ref_value this idx)"

subsection \<open>\<^verbatim>\<open>table_index\<close>: construction, destruction, copy-assignment\<close>

definition table_index_ctor :: table_index where
  "table_index_ctor = \<lparr>s_ti = None, tblRef = LUA_REFNIL, idxRef = LUA_REFNIL\<rparr>"

definition table_index_state :: "nat option \<Rightarrow> int \<Rightarrow> local \<Rightarrow> (world, table_index) op" where
  "table_index_state sp tbl idx =
     bind (deref sp) (\<lambda>x.
     bind (check_state_consistancy idx x) (\<lambda>u.
     bind (push_value idx x) (\<lambda>u.
     bind (api x luaL_ref) (\<lambda>r.
     ret \<lparr>s_ti = sp, tblRef = tbl, idxRef = r\<rparr>))))"

definition table_index_copy :: "table_index \<Rightarrow> (world, table_index) op" where
  "table_index_copy ti =
     bind (deref (s_ti ti)) (\<lambda>x.
     bind (api x (lua_rawgeti (idxRef ti))) (\<lambda>u.
     bind (api x luaL_ref) (\<lambda>r.
     ret \<lparr>s_ti = s_ti ti, tblRef = tblRef ti, idxRef = r\<rparr>)))"

definition table_index_dtor :: "table_index \<Rightarrow> (world, unit) op" where
  "table_index_dtor this =
     (if idxRef this \<noteq> LUA_REFNIL
      then bind (deref (s_ti this)) (\<lambda>x. api x (luaL_unref (idxRef this)))
      else ret ())"

definition table_index_assign :: "table_index \<Rightarrow> table_index \<Rightarrow> (world, table_index) op" where
  "table_index_assign this rhs =
     bind (if idxRef this \<noteq> LUA_REFNIL
           then bind (deref (s_ti this)) (\<lambda>x. api x (luaL_unref (idxRef this)))
           else ret ()) (\<lambda>u.
     if s_ti rhs \<noteq> None
     then bind (deref (s_ti rhs)) (\<lambda>x.
          bind (api x (lua_rawgeti (idxRef rhs))) (\<lambda>u.
          bind (api x luaL_ref) (\<lambda>r.
          ret \<lparr>s_ti = s_ti rhs, tblRef = tblRef rhs, idxRef = r\<rparr>)))
     else ret \<lparr>s_ti = None, tblRef = LUA_REFNIL, idxRef = LUA_REFNIL\<rparr>)"

definition check_valid :: "table_index \<Rightarrow> ('s, unit) op" where
  "check_valid this =
     (if s_ti this = None
      then throw (logic_error ''Attempted to use an invalid table_index object'')
      else ret ())"

subsection \<open>Release, destruction, copy and move\<close>

text \<open>
  \<^verbatim>\<open>release()\<close> assigns a temporary \<^verbatim>\<open>table_index()\<close> to \<^verbatim>\<open>tindex\<close> and destroys the
  temporary. The destructor \<^verbatim>\<open>~local()\<close> calls \<^verbatim>\<open>release()\<close>; the member \<^verbatim>\<open>tindex\<close> is
  destroyed after it.
\<close>

definition release :: "local \<Rightarrow> (world, local) op" where
  "release this =
     bind (if is_table this
           then bind (table_index_assign (tindex this) table_index_ctor) (\<lambda>ti.
                bind (table_index_dtor table_index_ctor) (\<lambda>u.
                ret (this\<lparr>tindex := ti\<rparr>)))
           else ret this) (\<lambda>this.
     if L this \<noteq> None \<and> is_ref_type this
     then bind (lift (get_ref (val this))) (\<lambda>r.
          bind (api (L this) (luaL_unref r)) (\<lambda>u.
          ret this))
     else if t this = type_stateless_string
     then bind (lift (get_string (val this))) (\<lambda>p.
          bind (release_string p) (\<lambda>u.
          ret this))
     else ret this)"

definition local_dtor :: "local \<Rightarrow> (world, unit) op" where
  "local_dtor this = bind (release this) (\<lambda>this. table_index_dtor (tindex this))"

definition copy_value :: "local \<Rightarrow> local \<Rightarrow> (world, local) op" where
  "copy_value this lcl =
     bind (ret (this\<lparr>s := s lcl, L := L lcl, t := t lcl, val := val lcl, cargs := 0\<rparr>)) (\<lambda>this.
     bind (if is_ref_type this
           then bind (push_ref_value this) (\<lambda>u.
                bind (load_ref_value_no_type this (- 1)) (\<lambda>this.
                bind (api (L this) (lua_pop 1)) (\<lambda>u.
                ret this)))
           else ret this) (\<lambda>this.
     if t this = type_stateless_string
     then bind (lift (get_string (val lcl))) (\<lambda>p.
          bind (copy_string p) (\<lambda>q.
          ret (this\<lparr>val := value_string q\<rparr>)))
     else ret this))"

text \<open>
  A constructor initialises the members it names and leaves the others as the storage
  held them. \<open>mem\<close> is that prior content of the storage: a constructor that does not
  set \<^verbatim>\<open>t\<close>, \<^verbatim>\<open>value\<close> or \<^verbatim>\<open>cargs\<close> returns them as \<open>mem\<close> has them. \<^verbatim>\<open>tindex\<close> is
  default-constructed by every constructor.
\<close>

definition local_default :: "local \<Rightarrow> local" where
  "local_default mem = mem\<lparr>s := None, L := None, t := type_nil, tindex := table_index_ctor\<rparr>"

definition local_state :: "local \<Rightarrow> nat option \<Rightarrow> (world, local) op" where
  "local_state mem sp =
     bind (deref sp) (\<lambda>x.
     ret (mem\<lparr>s := sp, L := x, tindex := table_index_ctor\<rparr>))"

definition local_copy :: "local \<Rightarrow> (world, local) op" where
  "local_copy lcl = copy_value (lcl\<lparr>tindex := table_index_ctor\<rparr>) lcl"

text \<open>
  \<^verbatim>\<open>local(local &&lcl)\<close> returns the new handle and the source as the move leaves it.
\<close>

definition local_move :: "local \<Rightarrow> local \<times> local" where
  "local_move lcl =
     (\<lparr>s = s lcl, L = L lcl, t = t lcl, val = val lcl, tindex = table_index_ctor, cargs = 0\<rparr>,
      lcl\<lparr>t := type_nil\<rparr>)"

definition local_bool :: "local \<Rightarrow> bool \<Rightarrow> local" where
  "local_bool mem b =
     mem\<lparr>s := None, L := None, t := type_boolean, val := value_boolean b,
         tindex := table_index_ctor\<rparr>"

definition local_Number :: "local \<Rightarrow> real \<Rightarrow> local" where
  "local_Number mem n =
     mem\<lparr>s := None, L := None, t := type_number, val := value_number n,
         tindex := table_index_ctor\<rparr>"

definition local_str :: "local \<Rightarrow> string \<Rightarrow> (world, local) op" where
  "local_str mem str =
     bind (create_string str) (\<lambda>p.
     ret (mem\<lparr>s := None, L := None, t := type_stateless_string, val := value_string p,
              tindex := table_index_ctor\<rparr>))"

definition local_CFunction :: "local \<Rightarrow> nat \<Rightarrow> local" where
  "local_CFunction mem f =
     mem\<lparr>s := None, L := None, t := type_cfunction, val := value_cfunction f,
         tindex := table_index_ctor\<rparr>"

definition local_ptr :: "local \<Rightarrow> nat \<Rightarrow> local" where
  "local_ptr mem p =
     mem\<lparr>s := None, L := None, t := type_lightuserdata, val := value_lightuserdata p,
         tindex := table_index_ctor\<rparr>"

definition local_state_bool :: "local \<Rightarrow> nat option \<Rightarrow> bool \<Rightarrow> (world, local) op" where
  "local_state_bool mem sp b =
     bind (deref sp) (\<lambda>x.
     ret (mem\<lparr>s := sp, L := x, t := type_boolean, val := value_boolean b,
              tindex := table_index_ctor\<rparr>))"

definition local_state_Number :: "local \<Rightarrow> nat option \<Rightarrow> real \<Rightarrow> (world, local) op" where
  "local_state_Number mem sp n =
     bind (deref sp) (\<lambda>x.
     ret (mem\<lparr>s := sp, L := x, t := type_number, val := value_number n,
              tindex := table_index_ctor\<rparr>))"

definition local_state_str :: "local \<Rightarrow> nat option \<Rightarrow> string \<Rightarrow> (world, local) op" where
  "local_state_str mem sp str =
     bind (deref sp) (\<lambda>x.
     bind (api x (lua_pushstring str)) (\<lambda>u.
     load_ref_value (mem\<lparr>s := sp, L := x, t := type_string, tindex := table_index_ctor\<rparr>) (- 1)))"

definition local_state_CFunction :: "local \<Rightarrow> nat option \<Rightarrow> nat \<Rightarrow> (world, local) op" where
  "local_state_CFunction mem sp f =
     bind (deref sp) (\<lambda>x.
     ret (mem\<lparr>s := sp, L := x, t := type_cfunction, val := value_cfunction f,
              tindex := table_index_ctor\<rparr>))"

definition local_state_ptr :: "local \<Rightarrow> nat option \<Rightarrow> nat \<Rightarrow> (world, local) op" where
  "local_state_ptr mem sp p =
     bind (deref sp) (\<lambda>x.
     ret (mem\<lparr>s := sp, L := x, t := type_lightuserdata, val := value_lightuserdata p,
              tindex := table_index_ctor\<rparr>))"

text \<open>
  \<^verbatim>\<open>operator=(const local &rhs)\<close>. The right-hand side is a reference: \<open>None\<close> stands for
  \<^verbatim>\<open>rhs\<close> being \<^verbatim>\<open>*this\<close> itself, which \<^verbatim>\<open>copy_value\<close> then reads as \<^verbatim>\<open>release()\<close> left it.
\<close>

definition operator_assign :: "local \<Rightarrow> local option \<Rightarrow> (world, local) op" where
  "operator_assign this rhs =
     bind (release this) (\<lambda>this.
     copy_value this (case rhs of None \<Rightarrow> this | Some lcl \<Rightarrow> lcl))"

text \<open>
  A parameter of type \<^verbatim>\<open>local\<close> passed by value from an lvalue is copy-constructed for
  the call and destroyed after it, also when the call throws.
\<close>

definition by_value :: "local \<Rightarrow> (local \<Rightarrow> (world, 'a) op) \<Rightarrow> (world, 'a) op" where
  "by_value arg f = bind (local_copy arg) (\<lambda>p. scope_exit (f p) (local_dtor p))"

subsection \<open>Numbers\<close>

text \<open>
  \<^verbatim>\<open>numberToInteger\<close> adds \<open>6755399441055744 = 2^52 + 2^51\<close> in double arithmetic and
  returns the \<^verbatim>\<open>int\<close> that overlays the less significant half of the sum
  (\<^verbatim>\<open>Platform::checkEndianness\<close>, which is not in \<^verbatim>\<open>Lua.hpp\<close>, is taken to report the host's
  byte order, so that \<^verbatim>\<open>u.i[1]\<close> on a big-endian host and \<^verbatim>\<open>u.i[0]\<close> on a little-endian one
  are both that half).

  \<open>binary64_low_word y\<close> is the low 32 bits of the IEEE 754 binary64 number nearest to
  \<open>y\<close>, ties to even: of its 52-bit fraction field, since the sign and the exponent lie
  in the upper half. With \<open>e\<close> the exponent of \<open>y\<close> (at least \<open>-1022\<close>, where the
  subnormal numbers start) the significand is \<open>\<bar>y\<bar> / 2^(e - 52)\<close> rounded to an integer.
\<close>

definition round_half_even :: "real \<Rightarrow> int" where
  "round_half_even x =
     (let f = \<lfloor>x\<rfloor>; d = x - of_int f
      in if d < 1 / 2 then f else if 1 / 2 < d then f + 1 else if even f then f else f + 1)"

definition binary64_low_word :: "real \<Rightarrow> 32 word" where
  "binary64_low_word y =
     (if y = 0 \<or> 2 ^ 1024 \<le> \<bar>y\<bar> then 0
      else word_of_int
             (round_half_even (\<bar>y\<bar> / 2 powr (of_int (max \<lfloor>log 2 \<bar>y\<bar>\<rfloor> (- 1022)) - 52))))"

text \<open>
  \<open>binary64_nearest y\<close> is that nearest binary64 number itself, for \<open>\<bar>y\<bar> < 2^1024\<close>: the
  result of \<^verbatim>\<open>static_cast<lua_Number>\<close> on an integer, which is exact up to \<open>2^53\<close> and
  rounds above.
\<close>

definition binary64_nearest :: "real \<Rightarrow> real" where
  "binary64_nearest y =
     (if y = 0 then 0
      else (let u = 2 powr (of_int (max \<lfloor>log 2 \<bar>y\<bar>\<rfloor> (- 1022)) - 52)
            in sgn y * of_int (round_half_even (\<bar>y\<bar> / u)) * u))"

definition numberToInteger :: "real \<Rightarrow> int" where
  "numberToInteger number = sint (binary64_low_word (number + 6755399441055744))"

text \<open>
  \<^verbatim>\<open>integerize()\<close>; its \<^verbatim>\<open>assert\<close> on the tag is compiled out under \<^verbatim>\<open>NDEBUG\<close> and is
  not modelled.
\<close>

definition integerize :: "local \<Rightarrow> error + local" where
  "integerize this =
     (if t this = type_integer then Inr this
      else (case get_number (val this) of
              Inl e \<Rightarrow> Inl e
            | Inr n \<Rightarrow> Inr (this\<lparr>val := value_integer (numberToInteger n), t := type_integer\<rparr>)))"

subsection \<open>Mutators and accessors\<close>

definition set_as_nil :: "local \<Rightarrow> (world, local) op" where
  "set_as_nil this = bind (release this) (\<lambda>this. ret (this\<lparr>t := type_nil\<rparr>))"

definition set_as_boolean :: "local \<Rightarrow> bool \<Rightarrow> (world, local) op" where
  "set_as_boolean this b =
     bind (release this) (\<lambda>this. ret (this\<lparr>t := type_boolean, val := value_boolean b\<rparr>))"

definition set_as_number :: "local \<Rightarrow> real \<Rightarrow> (world, local) op" where
  "set_as_number this n =
     bind (release this) (\<lambda>this.
     lift (integerize (this\<lparr>t := type_number, val := value_number n\<rparr>)))"

definition set_as_integer :: "local \<Rightarrow> int \<Rightarrow> (world, local) op" where
  "set_as_integer this i =
     bind (release this) (\<lambda>this. ret (this\<lparr>t := type_integer, val := value_integer i\<rparr>))"

text \<open>
  \<^verbatim>\<open>set_as_string\<close> with \<^verbatim>\<open>LUA_WRAPPER_STATELESS_STRINGS\<close>: without an interpreter the
  characters are copied into a block of \<^verbatim>\<open>slen + 1\<close> bytes from \<^verbatim>\<open>std::malloc\<close>.
\<close>

definition set_as_string :: "local \<Rightarrow> string \<Rightarrow> (world, local) op" where
  "set_as_string this x =
     (if L this = None
      then bind (release this) (\<lambda>this.
           bind (malloc (Block None x)) (\<lambda>p.
           ret (this\<lparr>t := type_stateless_string, val := value_string p\<rparr>)))
      else bind (check_state this) (\<lambda>u.
           bind (release this) (\<lambda>this.
           bind (api (L this) (lua_pushstring x)) (\<lambda>u.
           bind (load_ref_value_no_type (this\<lparr>t := type_string\<rparr>) (- 1)) (\<lambda>this.
           bind (api (L this) (lua_pop 1)) (\<lambda>u.
           ret this))))))"

definition set_as_cfunction :: "local \<Rightarrow> nat \<Rightarrow> (world, local) op" where
  "set_as_cfunction this f =
     bind (release this) (\<lambda>this. ret (this\<lparr>t := type_cfunction, val := value_cfunction f\<rparr>))"

definition set_as_lightuserdata :: "local \<Rightarrow> nat \<Rightarrow> (world, local) op" where
  "set_as_lightuserdata this p =
     bind (release this) (\<lambda>this.
     ret (this\<lparr>t := type_lightuserdata, val := value_lightuserdata p\<rparr>))"

definition to_boolean :: "local \<Rightarrow> error + bool" where
  "to_boolean this = (if t this = type_boolean then get_boolean (val this) else Inr False)"

definition to_number :: "local \<Rightarrow> error + real" where
  "to_number this =
     (if t this = type_number then get_number (val this)
      else if t this = type_integer
        then (case get_integer (val this) of
                Inl e \<Rightarrow> Inl e
              | Inr i \<Rightarrow> Inr (binary64_nearest (of_int i)))
      else Inr 0)"

definition to_integer :: "local \<Rightarrow> error + int" where
  "to_integer this =
     (if t this = type_integer then get_integer (val this)
      else if t this = type_number
        then (case get_number (val this) of Inl e \<Rightarrow> Inl e | Inr n \<Rightarrow> Inr (numberToInteger n))
      else Inr 0)"

definition to_cfunction :: "local \<Rightarrow> error + nat" where
  "to_cfunction this = (if t this = type_cfunction then get_cfunction (val this) else Inr 0)"

subsection \<open>Table access\<close>

text \<open>
  The parameters of type \<^verbatim>\<open>local\<close> are the objects the caller constructed for the call.
  Where a function constructs the handle it returns with \<^verbatim>\<open>local lcl(*s)\<close>, \<open>mem\<close> is the
  storage of that handle.
\<close>

definition table_set :: "local \<Rightarrow> local \<Rightarrow> local \<Rightarrow> (world, unit) op" where
  "table_set this key v =
     bind (check_is_table this) (\<lambda>u.
     bind (check_state_consistancy key (L this)) (\<lambda>u.
     bind (check_state_consistancy v (L this)) (\<lambda>u.
     bind (push_ref_value this) (\<lambda>u.
     bind (push_value key (L this)) (\<lambda>u.
     bind (push_value v (L this)) (\<lambda>u.
     bind (api (L this) (lua_settable (- 3))) (\<lambda>u.
     api (L this) (lua_pop 1))))))))"

definition table_set_Integer :: "local \<Rightarrow> int \<Rightarrow> local \<Rightarrow> (world, unit) op" where
  "table_set_Integer this key v =
     bind (check_is_table this) (\<lambda>u.
     bind (check_state_consistancy v (L this)) (\<lambda>u.
     bind (push_ref_value this) (\<lambda>u.
     bind (api (L this) (lua_pushinteger key)) (\<lambda>u.
     bind (push_value v (L this)) (\<lambda>u.
     bind (api (L this) (lua_settable (- 3))) (\<lambda>u.
     api (L this) (lua_pop 1)))))))"

definition table_get :: "local \<Rightarrow> local \<Rightarrow> local \<Rightarrow> (world, local) op" where
  "table_get this key mem =
     bind (check_is_table this) (\<lambda>u.
     bind (check_state_consistancy key (L this)) (\<lambda>u.
     bind (push_ref_value this) (\<lambda>u.
     bind (push_value key (L this)) (\<lambda>u.
     bind (api (L this) (lua_gettable (- 2))) (\<lambda>u.
     bind (local_state mem (s this)) (\<lambda>lcl.
     bind (load_value lcl (- 1)) (\<lambda>lcl.
     bind (api (L this) (lua_pop 1)) (\<lambda>u.
     ret lcl))))))))"

definition table_get_Integer :: "local \<Rightarrow> int \<Rightarrow> local \<Rightarrow> (world, local) op" where
  "table_get_Integer this key mem =
     bind (check_is_table this) (\<lambda>u.
     bind (push_ref_value this) (\<lambda>u.
     bind (api (L this) (lua_pushinteger key)) (\<lambda>u.
     bind (api (L this) (lua_gettable (- 2))) (\<lambda>u.
     bind (local_state mem (s this)) (\<lambda>lcl.
     bind (load_value lcl (- 1)) (\<lambda>lcl.
     bind (api (L this) (lua_pop 1)) (\<lambda>u.
     ret lcl)))))))"

subsection \<open>\<^verbatim>\<open>table_index\<close>: reading and writing the slot\<close>

definition get_value :: "table_index \<Rightarrow> local \<Rightarrow> (world, local) op" where
  "get_value this mem =
     bind (check_valid this) (\<lambda>u.
     if tblRef this = LUA_REFNIL
     then throw (logic_error
            ''Attempt to get the value of a table_index that is not connected to a table'')
     else bind (deref (s_ti this)) (\<lambda>x.
          bind (api x (lua_rawgeti (tblRef this))) (\<lambda>u.
          bind (api x (lua_rawgeti (idxRef this))) (\<lambda>u.
          bind (api x (lua_gettable (- 2))) (\<lambda>u.
          bind (local_state mem (s_ti this)) (\<lambda>l.
          bind (load_value l (- 1)) (\<lambda>l.
          bind (api x (lua_pop 2)) (\<lambda>u.
          ret l))))))))"

definition operator_local :: "table_index \<Rightarrow> local \<Rightarrow> (world, local) op" where
  "operator_local this mem = get_value this mem"

definition operator_assign_local :: "table_index \<Rightarrow> local \<Rightarrow> (world, table_index) op" where
  "operator_assign_local this rhs =
     bind (check_valid this) (\<lambda>u.
     bind (deref (s_ti this)) (\<lambda>x.
     bind (check_state_consistancy rhs x) (\<lambda>u.
     bind (api x (lua_rawgeti (tblRef this))) (\<lambda>u.
     bind (api x (lua_rawgeti (idxRef this))) (\<lambda>u.
     bind (push_value rhs x) (\<lambda>u.
     bind (api x (lua_settable (- 3))) (\<lambda>u.
     bind (api x (lua_pop 1)) (\<lambda>u.
     ret this))))))))"

subsection \<open>\<^verbatim>\<open>class state\<close>: tables and globals\<close>

text \<open>The first parameter is the \<^verbatim>\<open>this\<close> pointer of the \<^verbatim>\<open>state\<close> object.\<close>

definition create_table :: "nat option \<Rightarrow> int \<Rightarrow> int \<Rightarrow> local \<Rightarrow> (world, local) op" where
  "create_table sp narr nrec mem =
     bind (deref sp) (\<lambda>x.
     bind (api x (lua_createtable narr nrec)) (\<lambda>u.
     bind (local_state mem sp) (\<lambda>lcl.
     load_ref_value_no_type (lcl\<lparr>t := type_table\<rparr>) (- 1))))"

definition get_global :: "nat option \<Rightarrow> string \<Rightarrow> local \<Rightarrow> (world, local) op" where
  "get_global sp n mem =
     bind (deref sp) (\<lambda>x.
     bind (api x (lua_getglobal n)) (\<lambda>u.
     bind (local_state mem sp) (\<lambda>lcl.
     bind (load_value lcl (- 1)) (\<lambda>lcl.
     bind (api x (lua_pop 1)) (\<lambda>u.
     ret lcl)))))"

definition set_global :: "nat option \<Rightarrow> local \<Rightarrow> string \<Rightarrow> (world, unit) op" where
  "set_global sp lcl n =
     bind (deref sp) (\<lambda>x.
     bind (api x (lua_setglobal n)) (\<lambda>u.
     push_value lcl None))"

subsection \<open>Calling (\<^verbatim>\<open>LUA_WRAPPER_TABLE_RETURN\<close>)\<close>

definition prep_call :: "local \<Rightarrow> (world, local) op" where
  "prep_call this = bind (push_ref_value this) (\<lambda>u. ret (this\<lparr>cargs := 0\<rparr>))"

definition push_call_args_local :: "local \<Rightarrow> local \<Rightarrow> (world, local) op" where
  "push_call_args_local this arg =
     bind (check_state_consistancy arg (L this)) (\<lambda>u.
     bind (push_value arg (L this)) (\<lambda>u.
     ret (this\<lparr>cargs := cargs this + 1\<rparr>)))"

text \<open>
  The variadic \<^verbatim>\<open>push_call_args(arg, args...)\<close> pushes its arguments from left to right
  through \<^verbatim>\<open>push_call_args<local>(local arg)\<close>, which receives a copy.
\<close>

fun push_call_args :: "local \<Rightarrow> local list \<Rightarrow> (world, local) op" where
  "push_call_args this [] = ret this"
| "push_call_args this (arg # args) =
     bind (by_value arg (push_call_args_local this)) (\<lambda>this'. push_call_args this' args)"

text \<open>
  The loop of \<^verbatim>\<open>do_call\<close> that fills the table of results:
  \<^verbatim>\<open>for (int i = 0; i < retc; i++) { local retv(*s); retv.load_value(-i - 1); tbl.table_set(i, retv); }\<close>
  The call binds to \<^verbatim>\<open>table_set(lua_Integer, local)\<close>, with a copy of \<^verbatim>\<open>retv\<close>.
\<close>

function store_results :: "local \<Rightarrow> local \<Rightarrow> local \<Rightarrow> int \<Rightarrow> int \<Rightarrow> (world, unit) op" where
  "store_results this tbl mem i retc w =
     (if i < retc
      then (case bind (local_state mem (s this)) (\<lambda>retv.
                 bind (load_value retv (- i - 1)) (\<lambda>retv.
                 scope_exit (by_value retv (table_set_Integer tbl i)) (local_dtor retv))) w of
              (Inl e, w') \<Rightarrow> (Inl e, w')
            | (Inr u, w') \<Rightarrow> store_results this tbl mem (i + 1) retc w')
      else (Inr (), w))"
  by pat_completeness auto
termination
  by (relation "measure (\<lambda>(this, tbl, mem, i, retc, w). nat (retc - i))") auto

declare store_results.simps [simp del]

text \<open>
  \<^verbatim>\<open>int retc = -prevTop + currTop + cargs + 1\<close> adds an \<^verbatim>\<open>int\<close> to the \<^verbatim>\<open>uint32_t\<close> member
  \<^verbatim>\<open>cargs\<close>: the sum is taken modulo \<open>2^32\<close> and read back as an \<^verbatim>\<open>int\<close>.
\<close>

definition do_call :: "local \<Rightarrow> local \<Rightarrow> (world, local) op" where
  "do_call this mem =
     bind (api (L this) lua_gettop) (\<lambda>prevTop.
     bind (api (L this) (lua_pcall (sint (cargs this)))) (\<lambda>status.
     if status \<noteq> 0
     then bind (api (L this) (lua_tostring (- 1))) (\<lambda>err.
          bind (api (L this) (lua_pop 1)) (\<lambda>u.
          case err of
            None \<Rightarrow> throw (undefined_behaviour ''std::runtime_error from a null pointer'')
          | Some msg \<Rightarrow> throw (runtime_error msg)))
     else bind (api (L this) lua_gettop) (\<lambda>currTop.
          let retc = sint (word_of_int (- prevTop + currTop) + cargs this + 1 :: 32 word)
          in if retc = 0 then local_state mem (s this)
             else if retc = 1
               then bind (local_state mem (s this)) (\<lambda>lcl. load_value lcl (- 1))
             else bind (create_table (s this) retc 0 mem) (\<lambda>tbl.
                  bind (store_results this tbl mem 0 retc) (\<lambda>u.
                  bind (api (L this) (lua_pop retc)) (\<lambda>u.
                  ret tbl))))))"

text \<open>
  \<^verbatim>\<open>operator()\<close>: the overload without arguments for the empty list, the two templates
  for a list of one or more arguments.
\<close>

definition operator_call :: "local \<Rightarrow> local list \<Rightarrow> local \<Rightarrow> (world, local) op" where
  "operator_call this args mem =
     (case args of
        [] \<Rightarrow>
          bind (prep_call this) (\<lambda>this.
          do_call this mem)
      | arg # args' \<Rightarrow>
          bind (check_is_function this) (\<lambda>u.
          bind (prep_call this) (\<lambda>this.
          bind (push_call_args this (arg # args')) (\<lambda>this.
          do_call this mem))))"

section \<open>Observations and example states\<close>

definition stack_of :: "world \<Rightarrow> nat \<Rightarrow> lua_value list option" where
  "stack_of w p = (case interps w p of None \<Rightarrow> None | Some st \<Rightarrow> Some (stack st))"

definition stack_depth :: "world \<Rightarrow> nat \<Rightarrow> nat option" where
  "stack_depth w p = (case interps w p of None \<Rightarrow> None | Some st \<Rightarrow> Some (length (stack st)))"

definition registry_of :: "world \<Rightarrow> nat \<Rightarrow> lua_value option list option" where
  "registry_of w p = (case interps w p of None \<Rightarrow> None | Some st \<Rightarrow> Some (registry st))"

definition global_of :: "world \<Rightarrow> nat \<Rightarrow> string \<Rightarrow> lua_value option" where
  "global_of w p n = (case interps w p of None \<Rightarrow> None | Some st \<Rightarrow> Some (globals st n))"

definition table_of :: "world \<Rightarrow> nat \<Rightarrow> nat \<Rightarrow> lua_value \<Rightarrow> lua_value option" where
  "table_of w p a k =
     (case interps w p of
        None \<Rightarrow> None
      | Some st \<Rightarrow> if a < length (tables st) then Some ((tables st ! a) k) else None)"

text \<open>
  An interpreter with the given stack, registry and tables, in which every call has the
  outcome \<open>res\<close>; a host with that interpreter at \<^verbatim>\<open>lua_State*\<close> \<open>0\<close>, owned by the
  \<^verbatim>\<open>state\<close> object at address \<open>0\<close>, and an empty heap; a handle of context \<open>c\<close>.
\<close>

definition example_interp ::
  "lua_value list \<Rightarrow> lua_value option list \<Rightarrow> (lua_value \<Rightarrow> lua_value) list
     \<Rightarrow> lua_value + lua_value list \<Rightarrow> lua_State" where
  "example_interp stk reg tbls res =
     \<lparr>stack = stk, registry = reg, globals = (\<lambda>n. LNil), tables = tbls,
      call_result = (\<lambda>f args. res), str2d = (\<lambda>x. None), fmt_number = (\<lambda>n. ''0'')\<rparr>"

definition example_world :: "lua_State \<Rightarrow> world" where
  "example_world st =
     \<lparr>states = (\<lambda>a. None)(0 := Some (Some 0)), interps = (\<lambda>p. None)(0 := Some st), heap = []\<rparr>"

definition example_handle :: "nat \<Rightarrow> type \<Rightarrow> value_union \<Rightarrow> local" where
  "example_handle c ty v =
     \<lparr>s = Some c, L = Some c, t = ty, val = v, tindex = table_index_ctor, cargs = 0\<rparr>"

text \<open>A host with two contexts: interpreter \<open>p\<close> is owned by the \<^verbatim>\<open>state\<close> object at \<open>p\<close>.\<close>

definition two_contexts :: "lua_State \<Rightarrow> lua_State \<Rightarrow> world" where
  "two_contexts st0 st1 =
     \<lparr>states = (\<lambda>a. None)(0 := Some (Some 0), 1 := Some (Some 1)),
      interps = (\<lambda>p. None)(0 := Some st0, 1 := Some st1), heap = []\<rparr>"


text \<open>
  An operation is \<open>neutral\<close> when, whatever its outcome, it leaves every interpreter's
  stack as deep as it found it.
\<close>

definition neutral :: "(world, 'a) op \<Rightarrow> bool" where
  "neutral m = (\<forall>w. stack_depth (snd (m w)) = stack_depth w)"

section \<open>Evaluation\<close>

lemmas api_defs =
  slot_def index2adr_def lua_typename_def lua_isnil_def lua_isboolean_def lua_isnumber_def
  lua_isstring_def lua_isfunction_def lua_iscfunction_def lua_isuserdata_def
  lua_islightuserdata_def lua_isthread_def lua_istable_def lua_toboolean_def lua_tonumber_def
  lua_tointeger_def lua_tocfunction_def lua_touserdata_def lua_tostring_def lua_gettop_def
  push_def lua_pop_def lua_pushvalue_def lua_pushnil_def lua_pushboolean_def lua_pushnumber_def
  lua_pushinteger_def lua_pushstring_def lua_pushcfunction_def lua_pushlightuserdata_def
  lua_createtable_def lua_settable_def lua_gettable_def lua_getglobal_def lua_setglobal_def
  lua_rawgeti_def luaL_ref_def luaL_unref_def callable_def lua_pcall_def LUA_REFNIL_def
  LUA_ERRRUN_def

lemmas op_defs =
  ret_def throw_def bind_def api_def snapshot_def deref_def scope_exit_def lift_def

lemmas heap_defs =
  malloc_def free_def get_string_refc_def set_string_refc_def create_string_def copy_string_def
  release_string_def live_buffers_def

lemmas local_defs =
  inactive_def get_boolean_def get_number_def get_integer_def get_cfunction_def
  get_lightuserdata_def get_ref_def get_string_def is_table_def is_ref_type_def check_state_def
  check_state_consistancy_def check_is_function_def check_is_table_def push_ref_value_def
  push_value_def load_ref_value_no_type_def load_ref_value_def load_value_def
  table_index_ctor_def table_index_dtor_def table_index_assign_def check_valid_def release_def
  local_dtor_def copy_value_def local_default_def local_state_def local_copy_def local_str_def
  operator_assign_def by_value_def set_as_string_def table_set_Integer_def table_get_def
  get_value_def operator_local_def operator_assign_local_def create_table_def get_global_def
  set_global_def prep_call_def push_call_args_local_def do_call_def operator_call_def
  store_results.simps

lemmas example_defs =
  stack_of_def stack_depth_def registry_of_def global_of_def table_of_def example_interp_def
  example_world_def example_handle_def two_contexts_def

section \<open>The call protocol\<close>

text \<open>
  A handle that anchors a callable value under a live reference, called without
  arguments. When the callee returns nothing, the handle \<^verbatim>\<open>local(*s)\<close> is returned
  (the constructor sets no tag: it is what the storage held) and the host state is as
  before.
  When the callee raises a string, that string is thrown as \<^verbatim>\<open>std::runtime_error\<close> and
  the host state is as before. When the callee returns one value, the call succeeds and
  that value is still on the stack afterwards.
\<close>

lemma do_call_no_result:
  assumes "L this = Some p" and "s this = Some a" and "states w a = Some (Some p)"
    and "interps w p = Some st" and "val this = value_ref r"
    and "1 \<le> r" and "nat r \<le> length (registry st)" and "registry st ! (nat r - 1) = Some f"
    and "callable f" and "call_result st f [] = Inr []"
  shows "operator_call this [] mem w
           = (Inr (mem\<lparr>s := Some a, L := Some p, tindex := table_index_ctor\<rparr>), w)"
  using assms
  by (simp add: operator_call_def prep_call_def do_call_def push_ref_value_def get_ref_def
        op_defs lua_rawgeti_def push_def lua_gettop_def lua_pcall_def local_state_def Let_def
        fun_upd_idem)

lemma do_call_error:
  assumes "L this = Some p" and "interps w p = Some st" and "val this = value_ref r"
    and "1 \<le> r" and "nat r \<le> length (registry st)" and "registry st ! (nat r - 1) = Some f"
    and "callable f" and "call_result st f [] = Inl (LString msg)"
  shows "operator_call this [] mem w = (Inl (runtime_error msg), w)"
  using assms
  by (simp add: operator_call_def prep_call_def do_call_def push_ref_value_def get_ref_def
        op_defs lua_rawgeti_def push_def lua_gettop_def lua_pcall_def lua_tostring_def slot_def
        lua_pop_def LUA_ERRRUN_def Let_def fun_upd_idem)

lemma do_call_one_result:
  assumes "L this = Some p" and "s this = Some a" and "states w a = Some (Some p)"
    and "interps w p = Some st" and "val this = value_ref r"
    and "1 \<le> r" and "nat r \<le> length (registry st)" and "registry st ! (nat r - 1) = Some f"
    and "callable f" and "call_result st f [] = Inr [v]"
  shows "stack_of (snd (operator_call this [] mem w)) p = Some (v # stack st)
         \<and> (\<exists>h. fst (operator_call this [] mem w) = Inr h)"
  using assms
  by (cases v)
     (simp_all add: operator_call_def prep_call_def do_call_def push_ref_value_def get_ref_def
        op_defs lua_rawgeti_def push_def lua_gettop_def lua_pcall_def local_state_def Let_def
        load_value_def load_ref_value_def load_ref_value_no_type_def api_defs stack_of_def)

text \<open>
  With one argument or more the check comes first: a handle whose tag is not
  \<^verbatim>\<open>function\<close> is refused and nothing is pushed. Without arguments there is no check:
  a handle that anchors a value that cannot be called is pushed and called, and the
  interpreter's message comes back as \<^verbatim>\<open>std::runtime_error\<close>.
\<close>

lemma operator_call_checked:
  assumes "t this \<noteq> type_function"
  shows "operator_call this (arg # args) mem w
           = (Inl (logic_error ''Cannot call a local that is not a function''), w)"
  using assms by (simp add: operator_call_def check_is_function_def bind_def throw_def)

lemma operator_call_unchecked:
  assumes "L this = Some p" and "interps w p = Some st" and "val this = value_ref r"
    and "1 \<le> r" and "nat r \<le> length (registry st)" and "registry st ! (nat r - 1) = Some f"
    and "\<not> callable f"
  shows "operator_call this [] mem w
           = (Inl (runtime_error (''attempt to call a '' @ lua_typename f @ '' value'')), w)"
  using assms
  by (simp add: operator_call_def prep_call_def do_call_def push_ref_value_def get_ref_def
        op_defs lua_rawgeti_def push_def lua_gettop_def lua_pcall_def lua_tostring_def slot_def
        lua_pop_def LUA_ERRRUN_def Let_def fun_upd_idem)

text \<open>
  C1 (table return policy: no result gives a nil handle, one result that result, two or
  more a fresh table whose keys \<open>0..n-1\<close> hold the results in call order). The code
  does not do this for two or more results. \<^verbatim>\<open>create_table\<close> leaves the new table on the
  stack, above the results, so \<^verbatim>\<open>load_value(-i - 1)\<close> reads the table itself for \<open>i = 0\<close>
  and then the results from the last one down. The interpreter starts with an empty
  stack and the callee under reference 1. For a callee that returns \<open>true, false\<close>
  the handle returned anchors the new table under reference 2; the table holds itself
  under key \<open>0\<close> and \<open>false\<close> under key \<open>1\<close>; the first result \<open>true\<close> is in no slot
  and stays on the stack. For the results \<open>10, 20, 30\<close> the keys \<open>1\<close> and \<open>2\<close> hold
  \<open>30\<close> and \<open>20\<close>.
\<close>

theorem do_call_table_of_results:
  "operator_call (example_handle 0 type_function (value_ref 1)) [] mem
     (example_world (example_interp [] [Some (LFunction 0)] []
        (Inr [LBoolean True, LBoolean False])))
   = (Inr (mem\<lparr>s := Some 0, L := Some 0, t := type_table, val := value_ref 2,
                tindex := table_index_ctor\<rparr>),
      example_world (example_interp [LBoolean True]
        [Some (LFunction 0), Some (LTable 0), None, None]
        [(\<lambda>k. LNil)(LNumber 0 := LTable 0, LNumber 1 := LBoolean False)]
        (Inr [LBoolean True, LBoolean False])))
   \<and> operator_call (example_handle 0 type_function (value_ref 1)) [] mem
       (example_world (example_interp [] [Some (LFunction 0)] []
          (Inr [LNumber 10, LNumber 20, LNumber 30])))
     = (Inr (mem\<lparr>s := Some 0, L := Some 0, t := type_table, val := value_ref 2,
                  tindex := table_index_ctor\<rparr>),
        example_world (example_interp [LNumber 10]
          [Some (LFunction 0), Some (LTable 0), None, None]
          [(\<lambda>k. LNil)(LNumber 0 := LTable 0, LNumber 1 := LNumber 30, LNumber 2 := LNumber 20)]
          (Inr [LNumber 10, LNumber 20, LNumber 30])))"
  by (simp add: example_defs api_defs op_defs local_defs Let_def)

text \<open>
  C2 (after \<^verbatim>\<open>operator()\<close> the stack is as deep as before the callee was pushed, in
  every case). The code restores the depth when the call returns nothing and when it
  raises, and leaves one slot too many otherwise: with one result \<^verbatim>\<open>do_call\<close> loads the
  value and returns without popping it, and with several results \<^verbatim>\<open>lua_pop(L, retc)\<close>
  removes the table that \<^verbatim>\<open>create_table\<close> left and all results but the first. The stack
  is empty before each of the four calls below; after them its depth is 0 (no result),
  0 (the callee raised), 1 (one result) and 1 (three results).
\<close>

theorem do_call_stack_depth:
  "stack_depth (example_world (example_interp [] [Some (LFunction 0)] [] res)) 0 = Some 0
   \<and> stack_depth (snd (operator_call (example_handle 0 type_function (value_ref 1)) [] mem
        (example_world (example_interp [] [Some (LFunction 0)] [] (Inr []))))) 0
      = Some 0
   \<and> stack_depth (snd (operator_call (example_handle 0 type_function (value_ref 1)) [] mem
        (example_world (example_interp [] [Some (LFunction 0)] []
           (Inl (LString ''boom'')))))) 0
      = Some 0
   \<and> stack_depth (snd (operator_call (example_handle 0 type_function (value_ref 1)) [] mem
        (example_world (example_interp [] [Some (LFunction 0)] [] (Inr [LBoolean True]))))) 0
      = Some 1
   \<and> stack_depth (snd (operator_call (example_handle 0 type_function (value_ref 1)) [] mem
        (example_world (example_interp [] [Some (LFunction 0)] []
           (Inr [LNumber 10, LNumber 20, LNumber 30]))))) 0
      = Some 1"
proof -
  let ?f = "example_handle 0 type_function (value_ref 1)"
  let ?W = "\<lambda>r. example_world (example_interp [] [Some (LFunction 0)] [] r)"
  have before: "stack_depth (?W r) 0 = Some 0" for r
    by (simp add: example_defs)
  have none: "operator_call ?f [] mem (?W (Inr []))
                = (Inr (mem\<lparr>s := Some 0, L := Some 0, tindex := table_index_ctor\<rparr>), ?W (Inr []))"
    by (rule do_call_no_result [where r = 1 and f = "LFunction 0"
          and st = "example_interp [] [Some (LFunction 0)] [] (Inr [])"])
       (simp_all add: example_defs callable_def)
  have raised: "operator_call ?f [] mem (?W (Inl (LString ''boom'')))
                  = (Inl (runtime_error ''boom''), ?W (Inl (LString ''boom'')))"
    by (rule do_call_error [where r = 1 and f = "LFunction 0" and p = 0
          and st = "example_interp [] [Some (LFunction 0)] [] (Inl (LString ''boom''))"])
       (simp_all add: example_defs callable_def)
  have one: "stack_of (snd (operator_call ?f [] mem (?W (Inr [LBoolean True])))) 0
               = Some [LBoolean True]"
    using do_call_one_result [of ?f 0 0 "?W (Inr [LBoolean True])"
            "example_interp [] [Some (LFunction 0)] [] (Inr [LBoolean True])" 1
            "LFunction 0" "LBoolean True" mem]
    by (simp add: example_defs callable_def)
  have three: "stack_of (snd (operator_call ?f [] mem
                 (?W (Inr [LNumber 10, LNumber 20, LNumber 30])))) 0 = Some [LNumber 10]"
    by (simp add: example_defs api_defs op_defs local_defs Let_def)
  have depth: "stack_depth w 0 = Some (length xs)" if "stack_of w 0 = Some xs" for w xs
    using that by (auto simp: stack_of_def stack_depth_def split: option.splits)
  show ?thesis
    using before none raised depth [OF one] depth [OF three] by simp
qed

text \<open>
  C3 (a handle whose tag is not \<^verbatim>\<open>function\<close> cannot be invoked: \<^verbatim>\<open>operator()\<close> fails
  with the not-callable error and performs no call, for any number of arguments, zero
  included). The two templates that take arguments call \<^verbatim>\<open>check_is_function\<close>; the
  overload without arguments does not. Invoked without arguments, a table handle is
  pushed and \<^verbatim>\<open>lua_pcall\<close> runs on it: the failure is the interpreter's, surfaced as
  \<^verbatim>\<open>std::runtime_error\<close>. With one argument the same handle is refused by the check.
\<close>

theorem operator_call_no_arguments_unchecked:
  "operator_call (example_handle 0 type_table (value_ref 1)) [] mem
     (example_world (example_interp [] [Some (LTable 0)] [\<lambda>k. LNil] res))
     = (Inl (runtime_error ''attempt to call a table value''),
        example_world (example_interp [] [Some (LTable 0)] [\<lambda>k. LNil] res))
   \<and> operator_call (example_handle 0 type_table (value_ref 1))
        [example_handle 0 type_boolean (value_boolean True)] mem
        (example_world (example_interp [] [Some (LTable 0)] [\<lambda>k. LNil] res))
     = (Inl (logic_error ''Cannot call a local that is not a function''),
        example_world (example_interp [] [Some (LTable 0)] [\<lambda>k. LNil] res))"
proof -
  let ?h = "example_handle 0 type_table (value_ref 1)"
  let ?st = "example_interp [] [Some (LTable 0)] [\<lambda>k. LNil] res"
  have "operator_call ?h [] mem (example_world ?st)
          = (Inl (runtime_error (''attempt to call a '' @ lua_typename (LTable 0) @ '' value'')),
             example_world ?st)"
    by (rule operator_call_unchecked [where r = 1 and p = 0 and st = ?st])
       (simp_all add: example_defs callable_def)
  moreover have "t ?h \<noteq> type_function"
    by (simp add: example_handle_def)
  ultimately show ?thesis
    by (simp add: operator_call_checked lua_typename_def)
qed

section \<open>Stack neutrality of copying and destroying a handle\<close>

lemma neutralD: "neutral m \<Longrightarrow> m w = (r, w') \<Longrightarrow> stack_depth w' = stack_depth w"
  by (auto simp: neutral_def dest: spec [of _ w])

lemma neutral_ret: "neutral (ret x)"
  by (simp add: neutral_def ret_def)

lemma neutral_lift: "neutral (lift r)"
  by (simp add: neutral_def lift_def)

lemma neutral_bind: "neutral m \<Longrightarrow> (\<And>x. neutral (f x)) \<Longrightarrow> neutral (bind m f)"
  by (auto simp: neutral_def bind_def split: prod.splits sum.splits)
     (metis snd_conv)+

lemma neutral_deref: "neutral (deref sp)"
  by (simp add: neutral_def deref_def split: option.splits)

lemma neutral_luaL_unref: "neutral (api Lp (luaL_unref r))"
  by (auto simp: neutral_def api_def luaL_unref_def stack_depth_def fun_eq_iff
      split: option.splits)

lemma neutral_table_index_dtor: "neutral (table_index_dtor ti)"
  unfolding table_index_dtor_def
  by (simp add: neutral_bind neutral_deref neutral_luaL_unref neutral_ret)

lemma neutral_table_index_reset: "neutral (table_index_assign ti table_index_ctor)"
  unfolding table_index_assign_def table_index_ctor_def
  by (simp add: neutral_bind neutral_deref neutral_luaL_unref neutral_ret)

lemma neutral_release_string: "neutral (release_string p)"
  by (auto simp: neutral_def release_string_def get_string_refc_def set_string_refc_def free_def
        bind_def ret_def stack_depth_def fun_eq_iff
      split: option.splits block.splits)

lemma neutral_copy_string: "neutral (copy_string p)"
  by (auto simp: neutral_def copy_string_def get_string_refc_def set_string_refc_def
        bind_def ret_def stack_depth_def fun_eq_iff
      split: option.splits block.splits)

lemma neutral_release: "neutral (release this)"
  unfolding release_def
  by (intro neutral_bind)
     (simp_all add: neutral_bind neutral_table_index_reset neutral_table_index_dtor
        neutral_ret neutral_lift neutral_luaL_unref neutral_release_string)

lemma neutral_local_dtor: "neutral (local_dtor this)"
  unfolding local_dtor_def
  by (simp add: neutral_bind neutral_release neutral_table_index_dtor)

text \<open>
  Anchoring a second reference to a registry entry (\<^verbatim>\<open>copy_value\<close> on a reference
  kind) pushes the entry and a copy of it; \<^verbatim>\<open>luaL_ref\<close> and \<^verbatim>\<open>lua_pop\<close> remove both.
\<close>

lemma neutral_duplicate:
  "neutral (bind (push_ref_value this) (\<lambda>u.
            bind (load_ref_value_no_type this (- 1)) (\<lambda>this.
            bind (api (L this) (lua_pop 1)) (\<lambda>u.
            ret this))))"
proof (cases "get_ref (val this)")
  case (Inl e)
  then show ?thesis
    by (simp add: neutral_def push_ref_value_def bind_def lift_def)
next
  case (Inr n)
  show ?thesis
  proof (cases "L this")
    case None
    then show ?thesis using Inr
      by (simp add: neutral_def push_ref_value_def bind_def lift_def api_def)
  next
    case (Some b)
    then show ?thesis using Inr
      by (auto simp: neutral_def ret_def bind_def lift_def api_def push_ref_value_def
            load_ref_value_no_type_def lua_rawgeti_def push_def lua_pushvalue_def
            index2adr_def slot_def luaL_ref_def lua_pop_def stack_depth_def Let_def fun_eq_iff
          split: option.splits lua_value.splits)
  qed
qed

lemma neutral_copy_value: "neutral (copy_value this lcl)"
  unfolding copy_value_def
  by (intro neutral_bind neutral_ret)
     (simp_all add: neutral_duplicate neutral_ret neutral_bind neutral_lift neutral_copy_string)

lemma copy_value_L:
  assumes "copy_value this lcl w = (Inr k, w')"
  shows "L k = L lcl"
  using assms
  by (auto simp: copy_value_def ret_def bind_def lift_def push_ref_value_def
        load_ref_value_no_type_def
      split: if_splits sum.splits prod.splits)

section \<open>Table access across contexts\<close>

text \<open>
  C4. For two runtime contexts \<open>a \<noteq> b\<close>, a table handle anchored in \<open>a\<close> and a key
  handle anchored in \<open>b\<close>, \<^verbatim>\<open>table_get\<close> fails with the cross-context error
  (\<^verbatim>\<open>std::logic_error("Inconsistant state between locals")\<close>) and no interpreter's stack
  depth changes: the check comes before any push. Three statements, for every storage
  content \<open>mem\<close> and every host state \<open>w\<close>:
  \<^item> the body of \<^verbatim>\<open>table_get\<close>, run on a key object of context \<open>b\<close>, throws and leaves
    the whole host state as it was;
  \<^item> the call with its parameter passing, \<^verbatim>\<open>t.table_get(k)\<close> for an lvalue \<open>k\<close> (the key
    is copy-constructed, the body runs, the copy is destroyed), leaves every
    interpreter's stack depth as it was;
  \<^item> the copy made for the call is again refused by the body.
\<close>

theorem table_get_cross_context:
  assumes "t this = type_table" and "L this = Some a" and "L key = Some b" and "a \<noteq> b"
  shows "table_get this key mem w
           = (Inl (logic_error ''Inconsistant state between locals''), w)
         \<and> stack_depth (snd (by_value key (\<lambda>k. table_get this k mem) w)) = stack_depth w
         \<and> (\<forall>k w1. local_copy key w = (Inr k, w1) \<longrightarrow>
               table_get this k mem w1
                 = (Inl (logic_error ''Inconsistant state between locals''), w1))"
proof -
  have body: "table_get this k mem w1
                = (Inl (logic_error ''Inconsistant state between locals''), w1)"
    if "L k = Some b" for k w1
    using assms(1,2,4) that
    by (simp add: table_get_def check_is_table_def check_state_consistancy_def
          bind_def ret_def throw_def)
  have copy: "L k = Some b" if "local_copy key w = (Inr k, w1)" for k w1
    using that assms(3) copy_value_L [of "key\<lparr>tindex := table_index_ctor\<rparr>" key w k w1]
    by (simp add: local_copy_def)
  have depth: "stack_depth (snd (by_value key (\<lambda>k. table_get this k mem) w)) = stack_depth w"
  proof (cases "local_copy key w")
    case (Pair r w1)
    have d1: "stack_depth w1 = stack_depth w"
      using Pair neutralD [OF neutral_copy_value] by (simp add: local_copy_def)
    show ?thesis
    proof (cases r)
      case (Inl e)
      then show ?thesis using Pair d1 by (simp add: by_value_def bind_def)
    next
      case (Inr k)
      obtain x w2 where dt: "local_dtor k w1 = (x, w2)" by (cases "local_dtor k w1")
      have d2: "stack_depth w2 = stack_depth w1"
        using dt neutralD [OF neutral_local_dtor] by simp
      have "L k = Some b" using copy Pair Inr by simp
      then show ?thesis using Pair Inr dt d1 d2 body [of k w1]
        by (simp add: by_value_def bind_def scope_exit_def split: sum.splits)
    qed
  qed
  show ?thesis using body [OF assms(3)] depth copy body by blast
qed

text \<open>
  The theorem at two contexts that each anchor a table under reference 1; the second
  has one value on its stack. The call with parameter passing fails with the same error.
\<close>

theorem table_get_cross_context_witness:
  "t (example_handle 0 type_table (value_ref 1)) = type_table
   \<and> L (example_handle 0 type_table (value_ref 1)) = Some 0
   \<and> L (example_handle 1 type_table (value_ref 1)) = Some 1
   \<and> (0::nat) \<noteq> 1
   \<and> table_get (example_handle 0 type_table (value_ref 1))
        (example_handle 1 type_table (value_ref 1))
        (example_handle 0 type_nil (value_ref 0))
        (two_contexts (example_interp [] [Some (LTable 0)] [\<lambda>k. LNil] (Inr []))
           (example_interp [LBoolean True] [Some (LTable 0)] [\<lambda>k. LNil] (Inr [])))
      = (Inl (logic_error ''Inconsistant state between locals''),
         two_contexts (example_interp [] [Some (LTable 0)] [\<lambda>k. LNil] (Inr []))
           (example_interp [LBoolean True] [Some (LTable 0)] [\<lambda>k. LNil] (Inr [])))
   \<and> fst (by_value (example_handle 1 type_table (value_ref 1))
             (\<lambda>k. table_get (example_handle 0 type_table (value_ref 1)) k
                    (example_handle 0 type_nil (value_ref 0)))
             (two_contexts (example_interp [] [Some (LTable 0)] [\<lambda>k. LNil] (Inr []))
                (example_interp [LBoolean True] [Some (LTable 0)] [\<lambda>k. LNil] (Inr []))))
      = Inl (logic_error ''Inconsistant state between locals'')
   \<and> stack_depth (snd (by_value (example_handle 1 type_table (value_ref 1))
             (\<lambda>k. table_get (example_handle 0 type_table (value_ref 1)) k
                    (example_handle 0 type_nil (value_ref 0)))
             (two_contexts (example_interp [] [Some (LTable 0)] [\<lambda>k. LNil] (Inr []))
                (example_interp [LBoolean True] [Some (LTable 0)] [\<lambda>k. LNil] (Inr []))))) 0
      = Some 0
   \<and> stack_depth (snd (by_value (example_handle 1 type_table (value_ref 1))
             (\<lambda>k. table_get (example_handle 0 type_table (value_ref 1)) k
                    (example_handle 0 type_nil (value_ref 0)))
             (two_contexts (example_interp [] [Some (LTable 0)] [\<lambda>k. LNil] (Inr []))
                (example_interp [LBoolean True] [Some (LTable 0)] [\<lambda>k. LNil] (Inr []))))) 1
      = Some 1"
proof -
  have h: "t (example_handle 0 type_table (value_ref 1)) = type_table"
    "L (example_handle 0 type_table (value_ref 1)) = Some 0"
    "L (example_handle 1 type_table (value_ref 1)) = Some 1"
    "(0::nat) \<noteq> 1"
    by (simp_all add: example_handle_def)
  have e: "fst (by_value (example_handle 1 type_table (value_ref 1))
             (\<lambda>k. table_get (example_handle 0 type_table (value_ref 1)) k
                    (example_handle 0 type_nil (value_ref 0)))
             (two_contexts (example_interp [] [Some (LTable 0)] [\<lambda>k. LNil] (Inr []))
                (example_interp [LBoolean True] [Some (LTable 0)] [\<lambda>k. LNil] (Inr []))))
      = Inl (logic_error ''Inconsistant state between locals'')"
    by (simp add: example_defs api_defs op_defs local_defs Let_def)
  have d: "stack_depth (two_contexts (example_interp [] [Some (LTable 0)] [\<lambda>k. LNil] (Inr []))
             (example_interp [LBoolean True] [Some (LTable 0)] [\<lambda>k. LNil] (Inr []))) 0 = Some 0"
    "stack_depth (two_contexts (example_interp [] [Some (LTable 0)] [\<lambda>k. LNil] (Inr []))
       (example_interp [LBoolean True] [Some (LTable 0)] [\<lambda>k. LNil] (Inr []))) 1 = Some 1"
    by (simp_all add: example_defs)
  show ?thesis
    using h e d table_get_cross_context [OF h,
      of "example_handle 0 type_nil (value_ref 0)"
         "two_contexts (example_interp [] [Some (LTable 0)] [\<lambda>k. LNil] (Inr []))
            (example_interp [LBoolean True] [Some (LTable 0)] [\<lambda>k. LNil] (Inr []))"]
    by simp
qed

section \<open>Globals\<close>

text \<open>
  Whatever handle is passed, \<^verbatim>\<open>set_global\<close> stores the value that was on top of the
  stack under the name.
\<close>

lemma set_global_takes_stack_top:
  assumes "states w a = Some (Some p)" and "interps w p = Some st" and "stack st = v # xs"
  shows "global_of (snd (set_global (Some a) lcl n w)) p n = Some v"
  using assms
  by (cases "t lcl")
     (auto simp: set_global_def push_value_def push_ref_value_def op_defs lua_setglobal_def
        global_of_def Let_def api_defs inactive_def get_boolean_def get_number_def
        get_integer_def get_string_def get_cfunction_def get_lightuserdata_def get_ref_def
      split: option.splits value_union.splits)

text \<open>
  C5 (after \<^verbatim>\<open>set_global(h, n)\<close>, \<^verbatim>\<open>get_global(n)\<close> returns a handle that observes the
  value of \<open>h\<close>). \<^verbatim>\<open>set_global\<close> calls \<^verbatim>\<open>lua_setglobal\<close> first and pushes the handle
  afterwards, so the global receives whatever was on top of the stack before the call,
  and the value of the handle is left on the stack. With \<open>true\<close> on the stack and a
  handle holding the integer \<open>7\<close>, the global \<open>x\<close> becomes \<open>true\<close> and \<open>7\<close> stays on
  the stack; \<^verbatim>\<open>get_global\<close> then returns a boolean handle. On an empty stack
  \<^verbatim>\<open>lua_setglobal\<close> has nothing to pop.
\<close>

theorem set_global_stores_stack_top:
  "set_global (Some 0) (example_handle 0 type_integer (value_integer 7)) ''x''
     (example_world (example_interp [LBoolean True] [] [] res))
     = (Inr (), example_world ((example_interp [LNumber 7] [] [] res)
                  \<lparr>globals := (\<lambda>n. LNil)(''x'' := LBoolean True)\<rparr>))
   \<and> get_global (Some 0) ''x'' mem
        (example_world ((example_interp [LNumber 7] [] [] res)
           \<lparr>globals := (\<lambda>n. LNil)(''x'' := LBoolean True)\<rparr>))
     = (Inr (mem\<lparr>s := Some 0, L := Some 0, t := type_boolean, val := value_boolean True,
                  tindex := table_index_ctor\<rparr>),
        example_world ((example_interp [LNumber 7] [] [] res)
           \<lparr>globals := (\<lambda>n. LNil)(''x'' := LBoolean True)\<rparr>))
   \<and> fst (set_global (Some 0) (example_handle 0 type_integer (value_integer 7)) ''x''
            (example_world (example_interp [] [] [] res)))
      = Inl (undefined_behaviour ''lua_setglobal: empty stack'')"
  by (simp add: example_defs api_defs op_defs local_defs Let_def)

section \<open>Numbers\<close>

lemma round_half_even_add_even:
  assumes "even c"
  shows "round_half_even (x + of_int c) = round_half_even x + c"
proof -
  have f: "\<lfloor>x + of_int c\<rfloor> = \<lfloor>x\<rfloor> + c" by simp
  show ?thesis
    unfolding round_half_even_def Let_def f using assms by simp
qed

lemma floor_log2_in_binade:
  assumes "2 ^ 52 \<le> y" and "y < 2 ^ 53"
  shows "\<lfloor>log 2 y\<rfloor> = 52"
proof -
  have "(0::real) < 2 ^ 52" by simp
  then have "0 < y" using assms(1) by (rule less_le_trans)
  have "2 powr of_int 52 \<le> y" "y < 2 powr (of_int 52 + 1)"
    using assms by (simp_all add: powr_realpow)
  then show ?thesis
    using \<open>0 < y\<close> by (subst floor_log_eq_powr_iff) simp_all
qed

text \<open>
  For \<open>-2^51 \<le> x < 2^51\<close> the sum with \<open>2^52 + 2^51\<close> lies in the binade of \<open>2^52\<close>,
  where doubles are the integers: the low word of the sum is the rounded \<open>x\<close>
  modulo \<open>2^32\<close>.
\<close>

lemma binary64_low_word_magic:
  assumes "- (2 ^ 51) \<le> x" and "x < 2 ^ 51"
  shows "binary64_low_word (x + 6755399441055744) = word_of_int (round_half_even x)"
proof -
  let ?y = "x + 6755399441055744"
  have lo: "2 ^ 52 \<le> ?y" and hi: "?y < 2 ^ 53" using assms by simp_all
  have pos: "0 < ?y" using assms(1) by simp
  have e: "\<lfloor>log 2 \<bar>?y\<bar>\<rfloor> = 52" using floor_log2_in_binade [OF lo hi] pos by simp
  have big: "\<not> 2 ^ 1024 \<le> \<bar>?y\<bar>" using hi pos by simp
  have r: "round_half_even ?y = round_half_even x + 6755399441055744"
    using round_half_even_add_even [of 6755399441055744 x] by simp
  have w: "(word_of_int (round_half_even x + 6755399441055744) :: 32 word)
             = word_of_int (round_half_even x)"
    by (simp add: word_of_int_eq_iff take_bit_eq_mod)
  show ?thesis
    unfolding binary64_low_word_def using pos big e r w by simp
qed

lemma numberToInteger_round:
  assumes "- (2 ^ 31) \<le> round_half_even x" and "round_half_even x < 2 ^ 31"
    and "- (2 ^ 51) \<le> x" and "x < 2 ^ 51"
  shows "numberToInteger x = round_half_even x"
  unfolding numberToInteger_def binary64_low_word_magic [OF assms(3,4)]
  using assms(1,2) by (simp add: signed_of_int signed_take_bit_int_eq_self)

lemma numberToInteger_7_2: "numberToInteger (7 / 2) = 4"
proof -
  have "round_half_even (7 / 2) = 4" by (simp add: round_half_even_def Let_def)
  then show ?thesis
    using numberToInteger_round [of "7 / 2"] by simp
qed

lemma numberToInteger_3: "numberToInteger 3 = 3"
proof -
  have "round_half_even 3 = 3" by (simp add: round_half_even_def Let_def)
  then show ?thesis
    using numberToInteger_round [of 3] by simp
qed

text \<open>
  \<^verbatim>\<open>load_value\<close> gives the integer tag to a number that equals its 64-bit integer
  part, and the number tag to any other, \<open>2^63\<close> included, which no 64-bit integer
  equals. Here for the one result of a call.
\<close>

lemma load_value_classifies:
  "fst (operator_call (example_handle 0 type_function (value_ref 1)) [] mem
          (example_world (example_interp [] [Some (LFunction 0)] [] (Inr [LNumber 3]))))
     = Inr (mem\<lparr>s := Some 0, L := Some 0, t := type_integer, val := value_integer 3,
                  tindex := table_index_ctor\<rparr>)
   \<and> fst (operator_call (example_handle 0 type_function (value_ref 1)) [] mem
          (example_world (example_interp [] [Some (LFunction 0)] [] (Inr [LNumber (7 / 2)]))))
     = Inr (mem\<lparr>s := Some 0, L := Some 0, t := type_number, val := value_number (7 / 2),
                  tindex := table_index_ctor\<rparr>)
   \<and> fst (operator_call (example_handle 0 type_function (value_ref 1)) [] mem
          (example_world (example_interp [] [Some (LFunction 0)] [] (Inr [LNumber (2 ^ 63)]))))
     = Inr (mem\<lparr>s := Some 0, L := Some 0, t := type_number, val := value_number (2 ^ 63),
                  tindex := table_index_ctor\<rparr>)"
  by (simp add: example_defs api_defs op_defs local_defs Let_def)

text \<open>
  \<^verbatim>\<open>to_number()\<close> on an integer handle: \<open>7\<close> is exact, \<open>2^53 + 1\<close> is not a double
  and becomes \<open>2^53\<close>.
\<close>

lemma floor_log2_binade:
  assumes "2 ^ n \<le> y" and "y < 2 ^ Suc n"
  shows "\<lfloor>log 2 y\<rfloor> = int n"
proof -
  have "(0::real) < 2 ^ n" by simp
  then have "0 < y" using assms(1) by (rule less_le_trans)
  have "2 powr of_int (int n) \<le> y" "y < 2 powr (of_int (int n) + 1)"
    using assms by (simp_all add: powr_realpow powr_add)
  then show ?thesis
    using \<open>0 < y\<close> by (subst floor_log_eq_powr_iff) simp_all
qed

lemma binary64_nearest_7: "binary64_nearest 7 = 7"
proof -
  have a: "\<lfloor>log 2 \<bar>7::real\<bar>\<rfloor> = 2"
    using floor_log2_binade [of 2 7] by simp
  have u: "(2::real) powr (of_int (max \<lfloor>log 2 \<bar>7::real\<bar>\<rfloor> (- 1022)) - 52) = 1 / 2 ^ 50"
    unfolding a by (simp add: powr_minus_divide)
  have r: "round_half_even (\<bar>7\<bar> / (1 / 2 ^ 50)) = 7 * 2 ^ 50"
    by (simp add: round_half_even_def)
  show ?thesis
    unfolding binary64_nearest_def Let_def u r by simp
qed

lemma binary64_nearest_above_2_53: "binary64_nearest (2 ^ 53 + 1) = 2 ^ 53"
proof -
  have a: "\<lfloor>log 2 \<bar>2 ^ 53 + 1 :: real\<bar>\<rfloor> = 53"
    using floor_log2_binade [of 53 "2 ^ 53 + 1"] by simp
  have u: "(2::real) powr (of_int (max \<lfloor>log 2 \<bar>2 ^ 53 + 1 :: real\<bar>\<rfloor> (- 1022)) - 52) = 2"
    unfolding a by simp
  have f: "\<lfloor>(2 ^ 53 + 1) / (2::real)\<rfloor> = 2 ^ 52"
    by (simp add: floor_eq_iff)
  have r: "round_half_even (\<bar>2 ^ 53 + 1\<bar> / 2) = 2 ^ 52"
    using f by (simp add: round_half_even_def Let_def)
  show ?thesis
    unfolding binary64_nearest_def Let_def u r by simp
qed

lemma to_number_of_integer:
  "to_number (mem\<lparr>t := type_integer, val := value_integer 7\<rparr>) = Inr 7
   \<and> to_number (mem\<lparr>t := type_integer, val := value_integer (2 ^ 53 + 1)\<rparr>) = Inr (2 ^ 53)"
  using binary64_nearest_7 binary64_nearest_above_2_53
  by (simp add: to_number_def get_integer_def)

text \<open>
  Whatever the number, a handle that \<^verbatim>\<open>set_as_number\<close> returns has the integer tag.
\<close>

lemma set_as_number_tag:
  assumes "set_as_number this n w = (Inr h, w')"
  shows "t h = type_integer \<and> val h = value_integer (numberToInteger n)"
  using assms
  by (auto simp: set_as_number_def bind_def lift_def integerize_def get_number_def
      split: sum.splits prod.splits)

text \<open>
  C6 (a numeric value is classified when it is set: \<open>3.0\<close> gets the integer tag with
  value \<open>3\<close>, \<open>3.5\<close> keeps the number tag, and \<^verbatim>\<open>to_integer()\<close> of a number-tagged
  \<open>3.5\<close> is \<open>4\<close> by the magic-constant rounding). The code classifies in neither of
  its two ways of giving a handle a number. The constructor \<^verbatim>\<open>local(lua_Number)\<close> always
  sets the number tag, also for \<open>3.0\<close>. \<^verbatim>\<open>set_as_number\<close> always ends in
  \<^verbatim>\<open>integerize()\<close>, which converts whatever number it finds: for \<open>3.5\<close> the handle
  gets the integer tag and the value \<open>4\<close>, and \<open>3.5\<close> is lost. Only \<^verbatim>\<open>load_value\<close>
  compares the number with its integer part. The rounding itself is as the claim says:
  \<^verbatim>\<open>to_integer()\<close> on the number-tagged \<open>3.5\<close> is \<open>4\<close>.
\<close>

theorem set_as_number_always_integer:
  "t (local_Number mem 3) = type_number
   \<and> val (local_Number mem 3) = value_number 3
   \<and> map_sum id t (fst (set_as_number (local_default mem) (7 / 2) w)) = Inr type_integer
   \<and> map_sum id val (fst (set_as_number (local_default mem) (7 / 2) w)) = Inr (value_integer 4)
   \<and> map_sum id t (fst (set_as_number (local_default mem) 3 w)) = Inr type_integer
   \<and> map_sum id val (fst (set_as_number (local_default mem) 3 w)) = Inr (value_integer 3)
   \<and> to_integer (local_Number mem (7 / 2)) = Inr 4"
  by (simp add: local_Number_def set_as_number_def local_default_def release_def is_table_def
        is_ref_type_def op_defs integerize_def to_integer_def get_number_def
        numberToInteger_7_2 numberToInteger_3)

section \<open>Stateless strings\<close>

text \<open>
  C7 (every stateless string buffer starts with a 4-byte count, set to 1 on
  construction, so that any sequence of copies and destructions leaves the number of
  live buffers unchanged; this for every way of producing a stateless string,
  \<^verbatim>\<open>set_as_string\<close> on a handle without context included). \<^verbatim>\<open>set_as_string\<close> does not
  go through \<^verbatim>\<open>create_string\<close>: it allocates \<^verbatim>\<open>slen + 1\<close> bytes and stores the pointer to
  their start, with no count in front. Destroying the handle calls \<^verbatim>\<open>release_string\<close>,
  which decrements the four bytes before the block; the block is never freed through
  its own address, and one more buffer is live than before. The constructor
  \<^verbatim>\<open>local(const char*)\<close> does use \<^verbatim>\<open>create_string\<close>, and there construction followed by
  destruction leaves as many live buffers as before. Both for every string and every
  host state.
\<close>

theorem set_as_string_without_count:
  "bind (set_as_string (local_default mem) x) local_dtor w
     = (Inl (undefined_behaviour ''access before the start of the allocation''),
        w\<lparr>heap := heap w @ [Some (Block None x)]\<rparr>)
   \<and> live_buffers (w\<lparr>heap := heap w @ [Some (Block None x)]\<rparr>) = live_buffers w + 1
   \<and> bind (local_str mem x) local_dtor w = (Inr (), w\<lparr>heap := heap w @ [None]\<rparr>)
   \<and> live_buffers (w\<lparr>heap := heap w @ [None]\<rparr>) = live_buffers w"
  by (simp add: op_defs heap_defs local_defs)

text \<open>
  On the path that does lay out the count, a copy of a handle shares the buffer, and
  destroying the copy gives the host state back as it was.
\<close>

lemma stateless_copy_then_destroy:
  assumes "t h = type_stateless_string" and "val h = value_string p" and "L h = None"
    and "p < length (heap w)" and "heap w ! p = Some (Block (Some c) x)" and "c \<noteq> 0"
  shows "bind (local_copy h) local_dtor w = (Inr (), w)"
proof -
  have "(heap w)[p := Some (Block (Some c) x)] = heap w"
    using assms(4,5) by (metis list_update_id)
  then show ?thesis
    using assms
    by (simp add: op_defs heap_defs local_copy_def copy_value_def local_dtor_def release_def
          is_table_def is_ref_type_def get_string_def table_index_dtor_def table_index_ctor_def
          LUA_REFNIL_def)
qed

section \<open>Table-slot proxies\<close>








text \<open>
  The same for every proxy with a context and no container, every boolean handle of
  that context and every stack: nil, the key and the value are pushed, the interpreter
  raises, and the three slots stay.
\<close>

lemma operator_assign_local_unguarded:
  assumes "s_ti this = Some a" and "tblRef this = LUA_REFNIL"
    and "states w a = Some (Some p)" and "interps w p = Some st"
    and "t rhs = type_boolean" and "val rhs = value_boolean b" and "L rhs = Some p"
    and "1 \<le> idxRef this" and "nat (idxRef this) \<le> length (registry st)"
    and "registry st ! (nat (idxRef this) - 1) = Some k"
  shows "operator_assign_local this rhs w
           = (Inl (lua_panic ''attempt to index a nil value''),
              w\<lparr>interps := (interps w)(p \<mapsto> st\<lparr>stack := LBoolean b # k # LNil # stack st\<rparr>)\<rparr>)"
  using assms
  by (simp add: operator_assign_local_def check_valid_def check_state_consistancy_def
        push_value_def get_boolean_def op_defs lua_rawgeti_def lua_pushboolean_def push_def
        lua_settable_def index2adr_def slot_def lua_typename_def LUA_REFNIL_def Let_def)

section \<open>Assignment and move\<close>

text \<open>
  C9 (the self-assignment \<open>h = h\<close> leaves \<open>h\<close> unchanged and valid: a reference kind
  still anchors the same value, a stateless string keeps a live buffer and its count).
  \<^verbatim>\<open>operator=\<close> releases first and copies afterwards, with no test for \<^verbatim>\<open>this == &rhs\<close>.
  For a table handle the release removes the anchor; the copy then reads the freed
  registry slot, gets nil, and \<^verbatim>\<open>luaL_ref\<close> answers \<^verbatim>\<open>LUA_REFNIL\<close>: the handle keeps the
  table tag, refers to nothing, and pushes nil. For a stateless string that is the only
  owner of its buffer the release frees the buffer and the copy increments the count of
  the freed block.
\<close>

theorem self_assignment_releases_anchor:
  "operator_assign (example_handle 0 type_table (value_ref 1)) None
     (example_world (example_interp [] [Some (LTable 0)] [\<lambda>k. LNil] res))
     = (Inr (example_handle 0 type_table (value_ref LUA_REFNIL)),
        example_world (example_interp [] [None] [\<lambda>k. LNil] res))
   \<and> push_value (example_handle 0 type_table (value_ref LUA_REFNIL)) None
        (example_world (example_interp [] [None] [\<lambda>k. LNil] res))
     = (Inr (), example_world (example_interp [LNil] [None] [\<lambda>k. LNil] res))
   \<and> bind (local_str mem ''x'') (\<lambda>h. operator_assign h None) w
     = (Inl (undefined_behaviour ''use after free''), w\<lparr>heap := heap w @ [None]\<rparr>)"
  by (simp add: example_defs api_defs op_defs heap_defs local_defs Let_def)

text \<open>
  The same for every handle of a reference kind that holds a reference of a registry
  in which no slot is free: after \<open>h = h\<close> the reference is \<^verbatim>\<open>LUA_REFNIL\<close> and the slot
  is free. (With no free slot the implementation's list of free references is empty,
  and the slot that \<^verbatim>\<open>luaL_unref\<close> frees reads nil there as it does here.)
\<close>

lemma self_assignment_reference:
  assumes "L this = Some p" and "interps w p = Some st" and "val this = value_ref r"
    and "1 \<le> r" and "nat r \<le> length (registry st)" and "is_ref_type this"
    and "idxRef (tindex this) = LUA_REFNIL" and "None \<notin> set (registry st)"
  shows "map_sum id val (fst (operator_assign this None w)) = Inr (value_ref LUA_REFNIL)
         \<and> registry_of (snd (operator_assign this None w)) p
             = Some ((registry st)[nat r - 1 := None])"
  using assms
  by (cases "t this")
     (simp_all add: operator_assign_def release_def copy_value_def push_ref_value_def get_ref_def
        load_ref_value_no_type_def table_index_assign_def table_index_dtor_def
        table_index_ctor_def op_defs lua_rawgeti_def luaL_unref_def luaL_ref_def
        lua_pushvalue_def lua_pop_def push_def index2adr_def slot_def registry_of_def
        is_table_def is_ref_type_def LUA_REFNIL_def Let_def)

text \<open>
  C10. Moving a handle transfers the payload without duplicating or releasing it: the
  new handle has the context, tag and payload of the source and pushes what the source
  pushed; the source is left with the nil tag, and destroying it succeeds and changes
  nothing, in the registry or in the string heap. Moving a \<^verbatim>\<open>state\<close> takes over the
  \<^verbatim>\<open>lua_State*\<close> and nulls the source; destroying the source afterwards closes no
  interpreter. The first hypothesis says that the proxy member \<^verbatim>\<open>tindex\<close> of the source
  holds no key reference; no code compiled without \<^verbatim>\<open>LUA_WRAPPER_INDEXABLE_LOCALS\<close> (it
  is not defined) gives it one. The others say that \<open>src\<close> is a \<^verbatim>\<open>state\<close> object and that
  the new object is constructed somewhere else.
\<close>

theorem move_transfers_ownership:
  assumes "idxRef (tindex lcl) = LUA_REFNIL" and "states w src = Some x" and "dst \<noteq> src"
  shows "(case local_move lcl of
            (new, old) \<Rightarrow>
              s new = s lcl \<and> L new = L lcl \<and> t new = t lcl \<and> val new = val lcl
              \<and> push_value new Lp w = push_value lcl Lp w
              \<and> t old = type_nil
              \<and> local_dtor old w = (Inr (), w))
         \<and> (case state_move dst src w of
              (r, w1) \<Rightarrow>
                r = Inr () \<and> states w1 dst = Some x \<and> states w1 src = Some None
                \<and> interps w1 = interps w \<and> heap w1 = heap w
                \<and> (case state_dtor src w1 of
                      (r2, w2) \<Rightarrow>
                        r2 = Inr () \<and> states w2 dst = Some x \<and> interps w2 = interps w
                        \<and> heap w2 = heap w))"
proof -
  have handle_part: "(case local_move lcl of
            (new, old) \<Rightarrow>
              s new = s lcl \<and> L new = L lcl \<and> t new = t lcl \<and> val new = val lcl
              \<and> push_value new Lp w = push_value lcl Lp w
              \<and> t old = type_nil
              \<and> local_dtor old w = (Inr (), w))"
  proof -
    have pv: "push_value (fst (local_move lcl)) Lp w = push_value lcl Lp w"
      by (cases "t lcl")
         (simp_all add: local_move_def push_value_def push_ref_value_def Let_def
            cong: option.case_cong if_cong)
    have dt: "local_dtor (snd (local_move lcl)) w = (Inr (), w)"
      using assms(1)
      by (simp add: local_move_def local_dtor_def release_def is_table_def is_ref_type_def
            table_index_dtor_def bind_def ret_def)
    show ?thesis using pv dt by (simp add: local_move_def)
  qed
  have state_part: "(case state_move dst src w of
              (r, w1) \<Rightarrow>
                r = Inr () \<and> states w1 dst = Some x \<and> states w1 src = Some None
                \<and> interps w1 = interps w \<and> heap w1 = heap w
                \<and> (case state_dtor src w1 of
                      (r2, w2) \<Rightarrow>
                        r2 = Inr () \<and> states w2 dst = Some x \<and> interps w2 = interps w
                        \<and> heap w2 = heap w))"
    using assms(2,3)
    by (simp add: state_move_def state_dtor_def deref_def bind_def ret_def)
  show ?thesis using handle_part state_part by simp
qed

text \<open>
  The theorem at a table handle anchored under reference 1 and at the \<^verbatim>\<open>state\<close> object
  \<open>0\<close>, moved to address \<open>1\<close>: the anchor and the interpreter are still there.
\<close>

theorem move_transfers_ownership_witness:
  "idxRef (tindex (example_handle 0 type_table (value_ref 1))) = LUA_REFNIL
   \<and> states (example_world (example_interp [] [Some (LTable 0)] [\<lambda>k. LNil] (Inr []))) 0
       = Some (Some 0)
   \<and> (1::nat) \<noteq> 0
   \<and> t (snd (local_move (example_handle 0 type_table (value_ref 1)))) = type_nil
   \<and> val (fst (local_move (example_handle 0 type_table (value_ref 1)))) = value_ref 1
   \<and> local_dtor (snd (local_move (example_handle 0 type_table (value_ref 1))))
        (example_world (example_interp [] [Some (LTable 0)] [\<lambda>k. LNil] (Inr [])))
      = (Inr (), example_world (example_interp [] [Some (LTable 0)] [\<lambda>k. LNil] (Inr [])))
   \<and> registry_of (example_world (example_interp [] [Some (LTable 0)] [\<lambda>k. LNil] (Inr []))) 0
      = Some [Some (LTable 0)]
   \<and> states (snd (state_move 1 0
        (example_world (example_interp [] [Some (LTable 0)] [\<lambda>k. LNil] (Inr []))))) 0
      = Some None
   \<and> interps (snd (state_dtor 0 (snd (state_move 1 0
        (example_world (example_interp [] [Some (LTable 0)] [\<lambda>k. LNil] (Inr []))))))) 0
      = Some (example_interp [] [Some (LTable 0)] [\<lambda>k. LNil] (Inr []))"
proof -
  have h: "idxRef (tindex (example_handle 0 type_table (value_ref 1))) = LUA_REFNIL"
    "states (example_world (example_interp [] [Some (LTable 0)] [\<lambda>k. LNil] (Inr []))) 0
       = Some (Some 0)"
    "(1::nat) \<noteq> 0"
    by (simp_all add: example_defs table_index_ctor_def)
  have r: "registry_of (example_world (example_interp [] [Some (LTable 0)] [\<lambda>k. LNil] (Inr []))) 0
      = Some [Some (LTable 0)]"
    "interps (example_world (example_interp [] [Some (LTable 0)] [\<lambda>k. LNil] (Inr []))) 0
      = Some (example_interp [] [Some (LTable 0)] [\<lambda>k. LNil] (Inr []))"
    by (simp_all add: example_defs)
  show ?thesis
    using h r move_transfers_ownership [OF h, of None]
    by (auto simp: example_handle_def split: prod.splits)
qed

end
